theory Spec2Isabelle
  imports Main
begin

section \<open>The notebook \<^verbatim>\<open>notebooks/1-Introduction.ipynb\<close> as data\<close>

text \<open>
  The repository's source is one Jupyter notebook. It is embedded here cell by cell, in
  the order of the file: a markdown cell with its source lines, a code cell with its
  execution count, its source lines and the outputs recorded in the file. An output is
  an \<^verbatim>\<open>execute_result\<close> (execution count and the lines of its
  \<^verbatim>\<open>text/plain\<close> entry) or a \<^verbatim>\<open>stream\<close> (its name and its text lines).
  Strings are written as in the file, \<open>\<newline>\<close> being the line feed.
\<close>

datatype "output" =
    ExecuteResult nat "string list"
  | Stream string "string list"

datatype cell =
    Markdown "string list"
  | Code "nat option" "string list" "output list"

definition markdown_00 :: "string list" where
  \<open>markdown_00 =
    [''# Overview\<newline>'',
     ''In these notebooks, we'll process an example clinical document with medSpaCy. First, we'll perform preprocessing and sentence segmentation. Next, we'll extract entities using rules, assert attributes such as negation and which section the entity occured in. We'll then put all of our pieces together to process the entire document. Finally, we'll look at an alternative pipeline using a pre-trained statistical model to extract target entities rather than rules.\<newline>'',
     ''\<newline>'',
     ''In this first notebook, we'll introduce the medSpaCy library and show how to load a medSpaCy pipeline. Then in the following notebooks we'll walk through each of the pipeline steps in more detail and apply a fully built pipeline on clinical text.\<newline>'',
     ''\<newline>'',
     ''These notebooks will give a high-level overview of each component, but the individual packages will typically contain more complete examples and documentation. \<newline>'',
     ''\<newline>'',
     ''**Disclaimer**: many of the subpackages are in beta, just like medSpaCy!\<newline>'',
     ''\<newline>'',
     ''# Notebooks\<newline>'',
     ''- [1-Introduction](1-Introduction.ipynb)\<newline>'',
     ''- [2-Preprocessing_and_Sentence_Splitting](2-Preprocessing_and_Sentence_Splitting.ipynb)\<newline>'',
     ''- [3-Information-Extraction](3-Information-Extraction.ipynb)\<newline>'',
     ''- [4-Full-Pipeline](4-Full-Pipeline.ipynb)\<newline>'',
     ''- [5-Using-Pretrained-Models](5-Using-Pretrained-Models.ipynb)'']\<close>

definition cell_00 :: cell where
  "cell_00 = Markdown markdown_00"

definition markdown_01 :: "string list" where
  \<open>markdown_01 =
    [''# Loading a medSpaCy model\<newline>'',
     ''A medSpaCy model consists of a **base spaCy model** with **medSpaCy components added** to the pipeline. There are two primary ways that we can create a medSpaCy model:\<newline>'',
     ''\<newline>'',
     ''1. Load a full pipeline using `medspacy.load()`\<newline>'',
     ''2. Add specific components to an existing model'']\<close>

definition cell_01 :: cell where
  "cell_01 = Markdown markdown_01"

definition markdown_02 :: "string list" where
  \<open>markdown_02 =
    [''## 1. Load a full medSpaCy pipeline\<newline>'',
     ''We can load a complete pipeline using the `medspacy.load()` function. By default, this will build off of spaCy's **en_core_web_sm** model and will include:\<newline>'',
     ''- `Preprocessor` for destructive preprocessing\<newline>'',
     ''- `Tagger`: A part-of-speech tagger (from **en_core_web_sm**)\<newline>'',
     ''- `Parser`: A dependency parser (from **en_core_web_sm**)\<newline>'',
     ''- `TargetMatcher` for extended rule-based matching\<newline>'',
     ''- `Sectionizer` for section detection\<newline>'',
     ''- `ConText` for contextual analysis and attribute detection\<newline>'',
     ''- `Postprocessor` for additional business logic and custom rules'']\<close>

definition cell_02 :: cell where
  "cell_02 = Markdown markdown_02"

definition source_03 :: "string list" where
  \<open>source_03 =
    [''import medspacy'']\<close>

definition cell_03 :: cell where
  "cell_03 = Code (Some 1) source_03 []"

definition source_04 :: "string list" where
  \<open>source_04 =
    [''nlp = medspacy.load()'']\<close>

definition cell_04 :: cell where
  "cell_04 = Code (Some 2) source_04 []"

definition source_05 :: "string list" where
  \<open>source_05 =
    [''nlp.pipe_names'']\<close>

definition output_05 :: "string list" where
  \<open>output_05 =
    [''['tagger',\<newline>'',
     '' 'parser',\<newline>'',
     '' 'target_matcher',\<newline>'',
     '' 'sectionizer',\<newline>'',
     '' 'context',\<newline>'',
     '' 'postprocessor']'']\<close>

definition cell_05 :: cell where
  "cell_05 = Code (Some 3) source_05 [ExecuteResult 3 output_05]"

definition markdown_06 :: "string list" where
  \<open>markdown_06 =
    [''### Default rules\<newline>'',
     ''When available, components added by `medspacy.load()` include default rules. `Context`, and `sectionizer` will both contain default rules:'']\<close>

definition cell_06 :: cell where
  "cell_06 = Markdown markdown_06"

definition source_07 :: "string list" where
  \<open>source_07 =
    [''context = nlp.get_pipe("context")'']\<close>

definition cell_07 :: cell where
  "cell_07 = Code (Some 4) source_07 []"

definition source_08 :: "string list" where
  \<open>source_08 =
    [''context.item_data[:10]'']\<close>

definition output_08 :: "string list" where
  \<open>output_08 =
    [''[ConTextItem(literal='absence of', category='NEGATED_EXISTENCE', pattern=None, rule='FORWARD'),\<newline>'',
     '' ConTextItem(literal='adequate to rule out', category='NEGATED_EXISTENCE', pattern=[{'LOWER': {'IN': ['adequate', 'sufficient']}}, {'LOWER': 'to'}, {'LOWER': 'rule'}, {'LOWER': {'IN': ['him', 'her', 'them', 'patient', 'pt']}, 'OP': '?'}, {'LOWER': 'out'}, {'LOWER': {'IN': ['against', 'for']}, 'OP': '?'}], rule='FORWARD'),\<newline>'',
     '' ConTextItem(literal='adequate to rule the patient out', category='NEGATED_EXISTENCE', pattern=[{'LOWER': {'IN': ['adequate', 'sufficient']}}, {'LOWER': 'to'}, {'LOWER': 'rule'}, {'LOWER': 'the'}, {'LOWER': {'IN': ['patient', 'pt']}}, {'LOWER': 'out'}, {'LOWER': {'IN': ['against', 'for']}, 'OP': '?'}], rule='FORWARD'),\<newline>'',
     '' ConTextItem(literal='any other', category='NEGATED_EXISTENCE', pattern=None, rule='FORWARD'),\<newline>'',
     '' ConTextItem(literal='apart from', category='NEGATED_EXISTENCE', pattern=[{'LOWER': 'apart'}, {'LOWER': {'IN': ['for', 'from']}}], rule='TERMINATE'),\<newline>'',
     '' ConTextItem(literal='are ruled out', category='NEGATED_EXISTENCE', pattern=[{'LOWER': {'IN': ['are', 'is', 'was']}}, {'LOWER': 'ruled'}, {'LOWER': 'out'}], rule='BACKWARD'),\<newline>'',
     '' ConTextItem(literal='as a cause for', category='NEGATED_EXISTENCE', pattern=[{'LOWER': 'as'}, {'LOWER': {'IN': ['a', 'an', 'the']}}, {'LOWER': 'secondary', 'OP': '?'}, {'LOWER': {'IN': ['cause', 'etiology', 'source', 'reason']}}, {'LOWER': {'IN': ['for', 'of']}}], rule='TERMINATE'),\<newline>'',
     '' ConTextItem(literal='as has', category='NEGATED_EXISTENCE', pattern=None, rule='TERMINATE'),\<newline>'',
     '' ConTextItem(literal='as needed', category='HYPOTHETICAL', pattern=None, rule='FORWARD'),\<newline>'',
     '' ConTextItem(literal='as well as any', category='NEGATED_EXISTENCE', pattern=None, rule='FORWARD')]'']\<close>

definition cell_08 :: cell where
  "cell_08 = Code (Some 5) source_08 [ExecuteResult 5 output_08]"

definition source_09 :: "string list" where
  \<open>source_09 =
    [''sectionizer = nlp.get_pipe("sectionizer")'']\<close>

definition cell_09 :: cell where
  "cell_09 = Code (Some 6) source_09 []"

definition source_10 :: "string list" where
  \<open>source_10 =
    [''sectionizer.patterns[:10]'']\<close>

definition output_10 :: "string list" where
  \<open>output_10 =
    [''[{'section_title': 'addendum', 'pattern': 'ADDENDUM:'},\<newline>'',
     '' {'section_title': 'addendum', 'pattern': 'Addendum:'},\<newline>'',
     '' {'section_title': 'allergies', 'pattern': 'ALLERGIC REACTIONS:'},\<newline>'',
     '' {'section_title': 'allergies', 'pattern': 'ALLERGIES:'},\<newline>'',
     '' {'section_title': 'chief_complaint', 'pattern': 'CC:'},\<newline>'',
     '' {'section_title': 'chief_complaint', 'pattern': 'CHIEF COMPLAINT:'},\<newline>'',
     '' {'section_title': 'chief_complaint', 'pattern': 'Chief Complaint:'},\<newline>'',
     '' {'section_title': 'comments', 'pattern': 'COMMENTS:'},\<newline>'',
     '' {'section_title': 'diagnoses', 'pattern': 'ADMISSION DIAGNOSES:'},\<newline>'',
     '' {'section_title': 'diagnoses', 'pattern': 'DIAGNOSES:'}]'']\<close>

definition cell_10 :: cell where
  "cell_10 = Code (Some 7) source_10 [ExecuteResult 7 output_10]"

definition markdown_11 :: "string list" where
  \<open>markdown_11 =
    [''You can also set `load_rules` to `False` so that the components are all blank (other than PyRuSH, which requires rules to be instantiated):'']\<close>

definition cell_11 :: cell where
  "cell_11 = Markdown markdown_11"

definition markdown_12 :: "string list" where
  \<open>markdown_12 =
    [''### Using specific models\<newline>'',
     ''If you have other models installed, either in English or other languages, you can load that model in using the `model` argument. For example, to load a German model, first download the model:\<newline>'',
     ''\<newline>'',
     ''`python -m spacy download de_core_news_sm`\<newline>'',
     ''\<newline>'',
     ''```python\<newline>'',
     ''de = medspacy.load("de_core_news_sm", load_rules=False)\<newline>'',
     ''```'']\<close>

definition cell_12 :: cell where
  "cell_12 = Markdown markdown_12"

definition markdown_13 :: "string list" where
  \<open>markdown_13 =
    [''### Specifying components\<newline>'',
     ''You can define which specific components to include or specific components to exclude through the `enable` and `disable` arguments:'']\<close>

definition cell_13 :: cell where
  "cell_13 = Markdown markdown_13"

definition source_14 :: "string list" where
  \<open>source_14 =
    [''nlp_sectionizer_only = medspacy.load(enable=["sectionizer"])\<newline>'',
     ''nlp_sectionizer_only.pipe_names'']\<close>

definition output_14 :: "string list" where
  \<open>output_14 =
    [''['sectionizer']'']\<close>

definition cell_14 :: cell where
  "cell_14 = Code (Some 8) source_14 [ExecuteResult 8 output_14]"

definition source_15 :: "string list" where
  \<open>source_15 =
    [''nlp_no_pos_dep = medspacy.load(disable=["tagger", "parser"])\<newline>'',
     ''nlp_no_pos_dep.pipe_names'']\<close>

definition output_15 :: "string list" where
  \<open>output_15 =
    [''['target_matcher', 'sectionizer', 'context', 'postprocessor']'']\<close>

definition cell_15 :: cell where
  "cell_15 = Code (Some 9) source_15 [ExecuteResult 9 output_15]"

definition source_16 :: "string list" where
  \<open>source_16 = []\<close>

definition cell_16 :: cell where
  "cell_16 = Code None source_16 []"

definition markdown_17 :: "string list" where
  \<open>markdown_17 =
    [''## 2. Add specific components to an existing model\<newline>'',
     ''You can also import specific classes from medSpaCy, instantiate them yourself, and add them to an existing model. We'll show more examples of how to do this in future notebooks.'']\<close>

definition cell_17 :: cell where
  "cell_17 = Markdown markdown_17"

definition source_18 :: "string list" where
  \<open>source_18 =
    [''import spacy'']\<close>

definition cell_18 :: cell where
  "cell_18 = Code (Some 10) source_18 []"

definition source_19 :: "string list" where
  \<open>source_19 =
    [''en = spacy.load("en_core_web_sm")'']\<close>

definition cell_19 :: cell where
  "cell_19 = Code (Some 11) source_19 []"

definition source_20 :: "string list" where
  \<open>source_20 =
    [''from medspacy.context import ConTextComponent'']\<close>

definition cell_20 :: cell where
  "cell_20 = Code (Some 12) source_20 []"

definition source_21 :: "string list" where
  \<open>source_21 =
    [''context = ConTextComponent(nlp)'']\<close>

definition cell_21 :: cell where
  "cell_21 = Code (Some 13) source_21 []"

definition source_22 :: "string list" where
  \<open>source_22 =
    [''en.add_pipe(context)'']\<close>

definition cell_22 :: cell where
  "cell_22 = Code (Some 14) source_22 []"

definition source_23 :: "string list" where
  \<open>source_23 =
    [''en.pipe_names'']\<close>

definition output_23 :: "string list" where
  \<open>output_23 =
    [''['tagger', 'parser', 'ner', 'context']'']\<close>

definition cell_23 :: cell where
  "cell_23 = Code (Some 15) source_23 [ExecuteResult 15 output_23]"

definition markdown_24 :: "string list" where
  \<open>markdown_24 =
    [''# Demo Data\<newline>'',
     ''For data, we will use this example text derived from the [MIMIC-II](https://mimic.physionet.org/) critical care dataset:'']\<close>

definition cell_24 :: cell where
  "cell_24 = Markdown markdown_24"

definition source_25 :: "string list" where
  \<open>source_25 =
    [''with open("./discharge_summary.txt") as f:\<newline>'',
     ''    text = f.read()'']\<close>

definition cell_25 :: cell where
  "cell_25 = Code (Some 16) source_25 []"

definition source_26 :: "string list" where
  \<open>source_26 =
    [''print(text[:500])'']\<close>

definition output_26 :: "string list" where
  \<open>output_26 =
    [''Admission Date:  [**2573-5-30**]              Discharge Date:   [**2573-7-1**]\<newline>'',
     ''\<newline>'',
     ''Date of Birth:  [**2498-8-19**]             Sex:   F\<newline>'',
     ''\<newline>'',
     ''Service: SURGERY\<newline>'',
     ''\<newline>'',
     ''Allergies:\<newline>'',
     ''Hydrochlorothiazide\<newline>'',
     ''\<newline>'',
     ''Attending:[**First Name3 (LF) 1893**]\<newline>'',
     ''Chief Complaint:\<newline>'',
     ''Abdominal pain\<newline>'',
     ''\<newline>'',
     ''Major Surgical or Invasive Procedure:\<newline>'',
     ''PICC line [**6-25**]\<newline>'',
     ''ERCP w/ sphincterotomy [**5-31**]\<newline>'',
     ''\<newline>'',
     ''\<newline>'',
     ''History of Present Illness:\<newline>'',
     ''74y female with type 2 dm and a recent stroke affecting her\<newline>'',
     ''speech, who presents with 2 days of abdominal pain. Imaging sh\<newline>'']\<close>

definition cell_26 :: cell where
  "cell_26 = Code (Some 17) source_26 [Stream ''stdout'' output_26]"

definition notebook :: "cell list" where
  "notebook =
    [cell_00, cell_01, cell_02, cell_03, cell_04, cell_05,
     cell_06, cell_07, cell_08, cell_09, cell_10, cell_11,
     cell_12, cell_13, cell_14, cell_15, cell_16, cell_17,
     cell_18, cell_19, cell_20, cell_21, cell_22, cell_23,
     cell_24, cell_25, cell_26]"

section \<open>Python values and the imported library\<close>

text \<open>
  Exceptions are values. The notebook raises none itself; an import, a name, the
  built-in \<^verbatim>\<open>open\<close>, \<^verbatim>\<open>f.read()\<close> and every call into the imported library can.
\<close>

datatype py_error =
    ModuleNotFoundError string
  | NameError string
  | FileNotFoundError string
  | ReadError string
  | LibraryError string

text \<open>
  The arguments of \<^verbatim>\<open>medspacy.load\<close>, as the notebook passes them: the model name
  (positional, \<open>None\<close> when left out), \<^verbatim>\<open>load_rules\<close>, \<^verbatim>\<open>enable\<close> and \<^verbatim>\<open>disable\<close>
  (\<open>None\<close> when left out).
\<close>

record load_args =
  model :: "string option"
  load_rules :: "bool option"
  enable :: "string list option"
  disable :: "string list option"

definition no_args :: load_args where
  "no_args = \<lparr>model = None, load_rules = None, enable = None, disable = None\<rparr>"

text \<open>
  The notebook only calls the library; the library's code is not part of the notebook.
  The notebook's semantics therefore takes the library as a parameter: a record of the
  functions the notebook calls, over opaque types of pipelines (\<open>'nlp\<close>), components
  (\<open>'comp\<close>), rule items (\<open>'item\<close>) and section patterns (\<open>'pat\<close>). A call returns
  a value or raises. \<open>lib_add_pipe\<close> returns the pipeline as the call leaves it
  (the Python method changes the object in place).
\<close>

record ('nlp, 'comp, 'item, 'pat) library =
  lib_importable :: "string \<Rightarrow> bool"
  lib_medspacy_load :: "load_args \<Rightarrow> py_error + 'nlp"
  lib_spacy_load :: "string \<Rightarrow> py_error + 'nlp"
  lib_ConTextComponent :: "'nlp \<Rightarrow> py_error + 'comp"
  lib_get_pipe :: "'nlp \<Rightarrow> string \<Rightarrow> py_error + 'comp"
  lib_add_pipe :: "'nlp \<Rightarrow> 'comp \<Rightarrow> py_error + 'nlp"
  lib_pipe_names :: "'nlp \<Rightarrow> string list"
  lib_item_data :: "'comp \<Rightarrow> py_error + 'item list"
  lib_patterns :: "'comp \<Rightarrow> py_error + 'pat list"

section \<open>The state of the notebook's kernel\<close>

text \<open>
  The observable operations of a run, in the order they happen: an import, a call
  into the library (by the name the notebook calls), the read of an attribute of a
  library object, the opening, reading and closing of a file, and a \<^verbatim>\<open>print\<close>.
\<close>

datatype event =
    Import string
  | Call string
  | GetAttr string
  | Open string
  | Read string
  | Close string
  | Print

text \<open>What a code cell displays as its result.\<close>

datatype ('item, 'pat) shown =
    ShownNames "string list"
  | ShownItems "'item list"
  | ShownPatterns "'pat list"

text \<open>
  A file of the file system holds what \<^verbatim>\<open>read()\<close> gives on it: its text, or the
  exception the read raises.
\<close>

type_synonym file_system = "string \<rightharpoonup> (py_error + string)"

text \<open>
  The kernel state: the imported names, the notebook's global variables (unbound is
  \<open>None\<close>), the file system, the paths of the file handles that are open, the
  events so far, the results displayed (with the cell's execution count), standard
  output, and the exception that stopped the run, if any.
\<close>

record ('nlp, 'comp, 'item, 'pat) state =
  names :: "string list"
  v_nlp :: "'nlp option"
  v_context :: "'comp option"
  v_sectionizer :: "'comp option"
  v_nlp_sectionizer_only :: "'nlp option"
  v_nlp_no_pos_dep :: "'nlp option"
  v_en :: "'nlp option"
  v_text :: "string option"
  files :: file_system
  open_files :: "string list"
  events :: "event list"
  displayed :: "(nat \<times> ('item, 'pat) shown) list"
  stdout :: string
  raised :: "py_error option"

definition init :: "file_system \<Rightarrow> ('nlp, 'comp, 'item, 'pat) state" where
  "init fs =
     \<lparr>names = [], v_nlp = None, v_context = None, v_sectionizer = None,
      v_nlp_sectionizer_only = None, v_nlp_no_pos_dep = None, v_en = None, v_text = None,
      files = fs, open_files = [], events = [], displayed = [], stdout = [],
      raised = None\<rparr>"

subsection \<open>Statements\<close>

text \<open>A statement changes the state; it is defined on the state and on every extension of it.\<close>

type_synonym ('nlp, 'comp, 'item, 'pat, 'z) stmt =
  "('nlp, 'comp, 'item, 'pat, 'z) state_scheme \<Rightarrow> ('nlp, 'comp, 'item, 'pat, 'z) state_scheme"

definition raise :: "py_error \<Rightarrow> ('nlp, 'comp, 'item, 'pat, 'z) stmt" where
  "raise e s = s\<lparr>raised := Some e\<rparr>"

definition log :: "event \<Rightarrow> ('nlp, 'comp, 'item, 'pat, 'z) stmt" where
  "log e s = s\<lparr>events := events s @ [e]\<rparr>"

text \<open>Two statements of one cell: the second runs only if the first raised nothing.\<close>

definition thn :: "('nlp, 'comp, 'item, 'pat, 'z) stmt \<Rightarrow>
    ('nlp, 'comp, 'item, 'pat, 'z) stmt \<Rightarrow>
    ('nlp, 'comp, 'item, 'pat, 'z) stmt" where
  "thn a b s = (let s' = a s in if raised s' = None then b s' else s')"

text \<open>\<^verbatim>\<open>import m\<close> and \<^verbatim>\<open>from m import n\<close>: the module is imported, the name bound.\<close>

definition py_import :: "('nlp, 'comp, 'item, 'pat) library \<Rightarrow> string \<Rightarrow> string \<Rightarrow>
    ('nlp, 'comp, 'item, 'pat) state \<Rightarrow> ('nlp, 'comp, 'item, 'pat) state" where
  "py_import L m n s =
     (if lib_importable L m then (log (Import m) s)\<lparr>names := n # names s\<rparr>
      else raise (ModuleNotFoundError m) (log (Import m) s))"

text \<open>The use of an imported name, and of a global variable: unbound raises NameError.\<close>

definition imported :: "string \<Rightarrow> ('nlp, 'comp, 'item, 'pat, 'z) stmt \<Rightarrow>
    ('nlp, 'comp, 'item, 'pat, 'z) stmt" where
  "imported n k s = (if n \<in> set (names s) then k s else raise (NameError n) s)"

definition var :: "(('nlp, 'comp, 'item, 'pat, 'z) state_scheme \<Rightarrow> 'a option) \<Rightarrow> string \<Rightarrow>
    ('a \<Rightarrow> ('nlp, 'comp, 'item, 'pat, 'z) stmt) \<Rightarrow>
    ('nlp, 'comp, 'item, 'pat, 'z) stmt" where
  "var sel n k s = (case sel s of None \<Rightarrow> raise (NameError n) s | Some v \<Rightarrow> k v s)"

text \<open>
  A call into the library and the read of an attribute: the event is logged, then the
  result is passed on or the exception raised.
\<close>

definition call :: "string \<Rightarrow> py_error + 'a \<Rightarrow>
    ('a \<Rightarrow> ('nlp, 'comp, 'item, 'pat) state \<Rightarrow> ('nlp, 'comp, 'item, 'pat) state) \<Rightarrow>
    ('nlp, 'comp, 'item, 'pat) state \<Rightarrow> ('nlp, 'comp, 'item, 'pat) state" where
  "call nm r k s =
     (case r of Inl e \<Rightarrow> raise e (log (Call nm) s) | Inr v \<Rightarrow> k v (log (Call nm) s))"

definition attr :: "string \<Rightarrow> py_error + 'a \<Rightarrow>
    ('a \<Rightarrow> ('nlp, 'comp, 'item, 'pat) state \<Rightarrow> ('nlp, 'comp, 'item, 'pat) state) \<Rightarrow>
    ('nlp, 'comp, 'item, 'pat) state \<Rightarrow> ('nlp, 'comp, 'item, 'pat) state" where
  "attr nm r k s =
     (case r of Inl e \<Rightarrow> raise e (log (GetAttr nm) s) | Inr v \<Rightarrow> k v (log (GetAttr nm) s))"

text \<open>The value of a cell's last expression is displayed under the cell's execution count.\<close>

definition display :: "nat \<Rightarrow> ('item, 'pat) shown \<Rightarrow>
    ('nlp, 'comp, 'item, 'pat, 'z) stmt" where
  "display k v s = s\<lparr>displayed := displayed s @ [(k, v)]\<rparr>"

text \<open>
  \<^verbatim>\<open>with open(p) as f: body\<close>. A missing file raises before anything is opened.
  Otherwise the handle is open while the body runs, and it is closed when the body is
  left, whether the body returned or raised; an exception of the body stays raised.
  The body is given what a read of the handle yields (the notebook uses \<^verbatim>\<open>f\<close> only
  there).
\<close>

definition with_open :: "string \<Rightarrow>
    (py_error + string \<Rightarrow> ('nlp, 'comp, 'item, 'pat, 'z) stmt) \<Rightarrow>
    ('nlp, 'comp, 'item, 'pat, 'z) stmt" where
  "with_open p body s =
     (case files s p of
        None \<Rightarrow> raise (FileNotFoundError p) s
      | Some d \<Rightarrow>
          (let s1 = (log (Open p) s)\<lparr>open_files := p # open_files s\<rparr>;
               s2 = body d s1
           in (log (Close p) s2)\<lparr>open_files := remove1 p (open_files s2)\<rparr>))"

text \<open>\<^verbatim>\<open>text = f.read()\<close> on the handle of the file at \<open>p\<close>.\<close>

definition read_into_text :: "string \<Rightarrow> py_error + string \<Rightarrow>
    ('nlp, 'comp, 'item, 'pat, 'z) stmt" where
  "read_into_text p d s =
     (case d of
        Inl e \<Rightarrow> raise e (log (Read p) s)
      | Inr c \<Rightarrow> (log (Read p) s)\<lparr>v_text := Some c\<rparr>)"

text \<open>\<^verbatim>\<open>print(x)\<close> writes \<open>x\<close> and a line feed to standard output.\<close>

definition py_print :: "string \<Rightarrow> ('nlp, 'comp, 'item, 'pat, 'z) stmt" where
  "py_print x s = (log Print s)\<lparr>stdout := stdout s @ x @ [CHR 0x0A]\<rparr>"

subsection \<open>The code cells\<close>

text \<open>Each code cell by its execution count, with its source.\<close>

text \<open>\<^verbatim>\<open>import medspacy\<close>\<close>

definition code_1 :: "('nlp, 'comp, 'item, 'pat) library \<Rightarrow>
    ('nlp, 'comp, 'item, 'pat) state \<Rightarrow> ('nlp, 'comp, 'item, 'pat) state" where
  "code_1 L = py_import L ''medspacy'' ''medspacy''"

text \<open>\<^verbatim>\<open>nlp = medspacy.load()\<close>\<close>

definition code_2 :: "('nlp, 'comp, 'item, 'pat) library \<Rightarrow>
    ('nlp, 'comp, 'item, 'pat) state \<Rightarrow> ('nlp, 'comp, 'item, 'pat) state" where
  "code_2 L =
     imported ''medspacy''
       (call ''medspacy.load'' (lib_medspacy_load L no_args) (\<lambda>p s. s\<lparr>v_nlp := Some p\<rparr>))"

text \<open>\<^verbatim>\<open>nlp.pipe_names\<close>\<close>

definition code_3 :: "('nlp, 'comp, 'item, 'pat) library \<Rightarrow>
    ('nlp, 'comp, 'item, 'pat) state \<Rightarrow> ('nlp, 'comp, 'item, 'pat) state" where
  "code_3 L =
     var v_nlp ''nlp''
       (\<lambda>p. attr ''pipe_names'' (Inr (lib_pipe_names L p)) (\<lambda>ns. display 3 (ShownNames ns)))"

text \<open>\<^verbatim>\<open>context = nlp.get_pipe("context")\<close>\<close>

definition code_4 :: "('nlp, 'comp, 'item, 'pat) library \<Rightarrow>
    ('nlp, 'comp, 'item, 'pat) state \<Rightarrow> ('nlp, 'comp, 'item, 'pat) state" where
  "code_4 L =
     var v_nlp ''nlp''
       (\<lambda>p. call ''get_pipe'' (lib_get_pipe L p ''context'') (\<lambda>c s. s\<lparr>v_context := Some c\<rparr>))"

text \<open>\<^verbatim>\<open>context.item_data[:10]\<close>\<close>

definition code_5 :: "('nlp, 'comp, 'item, 'pat) library \<Rightarrow>
    ('nlp, 'comp, 'item, 'pat) state \<Rightarrow> ('nlp, 'comp, 'item, 'pat) state" where
  "code_5 L =
     var v_context ''context''
       (\<lambda>c. attr ''item_data'' (lib_item_data L c) (\<lambda>xs. display 5 (ShownItems (take 10 xs))))"

text \<open>\<^verbatim>\<open>sectionizer = nlp.get_pipe("sectionizer")\<close>\<close>

definition code_6 :: "('nlp, 'comp, 'item, 'pat) library \<Rightarrow>
    ('nlp, 'comp, 'item, 'pat) state \<Rightarrow> ('nlp, 'comp, 'item, 'pat) state" where
  "code_6 L =
     var v_nlp ''nlp''
       (\<lambda>p. call ''get_pipe'' (lib_get_pipe L p ''sectionizer'')
          (\<lambda>c s. s\<lparr>v_sectionizer := Some c\<rparr>))"

text \<open>\<^verbatim>\<open>sectionizer.patterns[:10]\<close>\<close>

definition code_7 :: "('nlp, 'comp, 'item, 'pat) library \<Rightarrow>
    ('nlp, 'comp, 'item, 'pat) state \<Rightarrow> ('nlp, 'comp, 'item, 'pat) state" where
  "code_7 L =
     var v_sectionizer ''sectionizer''
       (\<lambda>c. attr ''patterns'' (lib_patterns L c) (\<lambda>xs. display 7 (ShownPatterns (take 10 xs))))"

text \<open>
  \<^verbatim>\<open>nlp_sectionizer_only = medspacy.load(enable=["sectionizer"])\<close>,
  \<^verbatim>\<open>nlp_sectionizer_only.pipe_names\<close>
\<close>

definition code_8 :: "('nlp, 'comp, 'item, 'pat) library \<Rightarrow>
    ('nlp, 'comp, 'item, 'pat) state \<Rightarrow> ('nlp, 'comp, 'item, 'pat) state" where
  "code_8 L =
     thn
       (imported ''medspacy''
          (call ''medspacy.load'' (lib_medspacy_load L (no_args\<lparr>enable := Some [''sectionizer'']\<rparr>))
             (\<lambda>p s. s\<lparr>v_nlp_sectionizer_only := Some p\<rparr>)))
       (var v_nlp_sectionizer_only ''nlp_sectionizer_only''
          (\<lambda>p. attr ''pipe_names'' (Inr (lib_pipe_names L p)) (\<lambda>ns. display 8 (ShownNames ns))))"

text \<open>
  \<^verbatim>\<open>nlp_no_pos_dep = medspacy.load(disable=["tagger", "parser"])\<close>,
  \<^verbatim>\<open>nlp_no_pos_dep.pipe_names\<close>
\<close>

definition code_9 :: "('nlp, 'comp, 'item, 'pat) library \<Rightarrow>
    ('nlp, 'comp, 'item, 'pat) state \<Rightarrow> ('nlp, 'comp, 'item, 'pat) state" where
  "code_9 L =
     thn
       (imported ''medspacy''
          (call ''medspacy.load''
             (lib_medspacy_load L (no_args\<lparr>disable := Some [''tagger'', ''parser'']\<rparr>))
             (\<lambda>p s. s\<lparr>v_nlp_no_pos_dep := Some p\<rparr>)))
       (var v_nlp_no_pos_dep ''nlp_no_pos_dep''
          (\<lambda>p. attr ''pipe_names'' (Inr (lib_pipe_names L p)) (\<lambda>ns. display 9 (ShownNames ns))))"

text \<open>\<^verbatim>\<open>import spacy\<close>\<close>

definition code_10 :: "('nlp, 'comp, 'item, 'pat) library \<Rightarrow>
    ('nlp, 'comp, 'item, 'pat) state \<Rightarrow> ('nlp, 'comp, 'item, 'pat) state" where
  "code_10 L = py_import L ''spacy'' ''spacy''"

text \<open>\<^verbatim>\<open>en = spacy.load("en_core_web_sm")\<close>\<close>

definition code_11 :: "('nlp, 'comp, 'item, 'pat) library \<Rightarrow>
    ('nlp, 'comp, 'item, 'pat) state \<Rightarrow> ('nlp, 'comp, 'item, 'pat) state" where
  "code_11 L =
     imported ''spacy''
       (call ''spacy.load'' (lib_spacy_load L ''en_core_web_sm'') (\<lambda>p s. s\<lparr>v_en := Some p\<rparr>))"

text \<open>\<^verbatim>\<open>from medspacy.context import ConTextComponent\<close>\<close>

definition code_12 :: "('nlp, 'comp, 'item, 'pat) library \<Rightarrow>
    ('nlp, 'comp, 'item, 'pat) state \<Rightarrow> ('nlp, 'comp, 'item, 'pat) state" where
  "code_12 L = py_import L ''medspacy.context'' ''ConTextComponent''"

text \<open>\<^verbatim>\<open>context = ConTextComponent(nlp)\<close>\<close>

definition code_13 :: "('nlp, 'comp, 'item, 'pat) library \<Rightarrow>
    ('nlp, 'comp, 'item, 'pat) state \<Rightarrow> ('nlp, 'comp, 'item, 'pat) state" where
  "code_13 L =
     imported ''ConTextComponent''
       (var v_nlp ''nlp''
          (\<lambda>p. call ''ConTextComponent'' (lib_ConTextComponent L p)
             (\<lambda>c s. s\<lparr>v_context := Some c\<rparr>)))"

text \<open>
  \<^verbatim>\<open>en.add_pipe(context)\<close>: the call changes the pipeline object that \<^verbatim>\<open>en\<close> names;
  nothing is assigned and nothing is displayed (the file records no output).
\<close>

definition code_14 :: "('nlp, 'comp, 'item, 'pat) library \<Rightarrow>
    ('nlp, 'comp, 'item, 'pat) state \<Rightarrow> ('nlp, 'comp, 'item, 'pat) state" where
  "code_14 L =
     var v_en ''en''
       (\<lambda>p. var v_context ''context''
          (\<lambda>c. call ''add_pipe'' (lib_add_pipe L p c) (\<lambda>p' s. s\<lparr>v_en := Some p'\<rparr>)))"

text \<open>\<^verbatim>\<open>en.pipe_names\<close>\<close>

definition code_15 :: "('nlp, 'comp, 'item, 'pat) library \<Rightarrow>
    ('nlp, 'comp, 'item, 'pat) state \<Rightarrow> ('nlp, 'comp, 'item, 'pat) state" where
  "code_15 L =
     var v_en ''en''
       (\<lambda>p. attr ''pipe_names'' (Inr (lib_pipe_names L p)) (\<lambda>ns. display 15 (ShownNames ns)))"

text \<open>\<^verbatim>\<open>with open("./discharge_summary.txt") as f:\<close> \<^verbatim>\<open>text = f.read()\<close>\<close>

definition code_16 :: "('nlp, 'comp, 'item, 'pat, 'z) stmt" where
  "code_16 = with_open ''./discharge_summary.txt'' (read_into_text ''./discharge_summary.txt'')"

text \<open>\<^verbatim>\<open>print(text[:500])\<close>: the slice is the first 500 characters, or all of them.\<close>

definition code_17 :: "('nlp, 'comp, 'item, 'pat, 'z) stmt" where
  "code_17 = var v_text ''text'' (\<lambda>t. py_print (take 500 t))"

subsection \<open>Running the notebook\<close>

definition code :: "('nlp, 'comp, 'item, 'pat) library \<Rightarrow> nat \<Rightarrow>
    ('nlp, 'comp, 'item, 'pat) state \<Rightarrow> ('nlp, 'comp, 'item, 'pat) state" where
  "code L k =
     (if k = 1 then code_1 L else if k = 2 then code_2 L else if k = 3 then code_3 L
      else if k = 4 then code_4 L else if k = 5 then code_5 L else if k = 6 then code_6 L
      else if k = 7 then code_7 L else if k = 8 then code_8 L else if k = 9 then code_9 L
      else if k = 10 then code_10 L else if k = 11 then code_11 L
      else if k = 12 then code_12 L else if k = 13 then code_13 L
      else if k = 14 then code_14 L else if k = 15 then code_15 L
      else if k = 16 then code_16 else if k = 17 then code_17 else id)"

text \<open>
  A markdown cell and the empty code cell do nothing. Cells run from the top; once an
  exception is raised, the rest is not run.
\<close>

definition exec_cell :: "('nlp, 'comp, 'item, 'pat) library \<Rightarrow> cell \<Rightarrow>
    ('nlp, 'comp, 'item, 'pat) state \<Rightarrow> ('nlp, 'comp, 'item, 'pat) state" where
  "exec_cell L c s =
     (if raised s \<noteq> None then s
      else case c of
        Markdown _ \<Rightarrow> s
      | Code None _ _ \<Rightarrow> s
      | Code (Some k) _ _ \<Rightarrow> code L k s)"

definition exec_cells :: "('nlp, 'comp, 'item, 'pat) library \<Rightarrow> cell list \<Rightarrow>
    ('nlp, 'comp, 'item, 'pat) state \<Rightarrow> ('nlp, 'comp, 'item, 'pat) state" where
  "exec_cells L cs s = fold (exec_cell L) cs s"

definition run :: "('nlp, 'comp, 'item, 'pat) library \<Rightarrow> file_system \<Rightarrow>
    ('nlp, 'comp, 'item, 'pat) state" where
  "run L fs = exec_cells L notebook (init fs)"

section \<open>The imported library, modelled\<close>

text \<open>
  The library's code is not among the source files. What follows is a model of the part
  of it the notebook calls, over two parameters: the built-in rule sets of the context
  component (\<open>items\<close>) and of the sectionizer (\<open>pats\<close>), of which the notebook shows
  only the first ten elements each. A component has a name, rule items and section
  patterns; a pipeline has the name of its base model and its stages in order.
\<close>

datatype ('item, 'pat) component =
  Component (comp_name: string) (comp_items: "'item list") (comp_patterns: "'pat list")

record ('item, 'pat) pipeline =
  base_model :: string
  stages :: "('item, 'pat) component list"

definition pipe_names :: "('item, 'pat) pipeline \<Rightarrow> string list" where
  "pipe_names p = map comp_name (stages p)"

text \<open>
  Modelled from the spec: \<^verbatim>\<open>medspacy.load\<close>, the factory function, whose code is
  missing from the source files. The spec gives its configuration as "a base
  language-model name, a boolean controlling whether built-in rule sets are loaded, and
  optional allow-list/deny-list parameters naming which pipeline stages to include or
  exclude", a pipeline as "an opaque ordered sequence of named processing stages", and
  the stages as \<^verbatim>\<open>tagger\<close>, \<^verbatim>\<open>parser\<close>, \<^verbatim>\<open>target_matcher\<close>, \<^verbatim>\<open>sectionizer\<close>,
  \<^verbatim>\<open>context\<close>, \<^verbatim>\<open>postprocessor\<close>. The defaults are those of the notebook's prose: the
  base model is \<^verbatim>\<open>en_core_web_sm\<close>; rules are loaded, in which case "\<^verbatim>\<open>Context\<close>, and
  \<^verbatim>\<open>sectionizer\<close> will both contain default rules", and otherwise "the components are
  all blank". A stage is included when the allow-list, if given, names it and the
  deny-list, if given, does not. The spec specifies no exception of the factory, and
  the model raises none.
\<close>

definition default_stage_names :: "string list" where
  "default_stage_names =
     [''tagger'', ''parser'', ''target_matcher'', ''sectionizer'', ''context'', ''postprocessor'']"

definition included :: "load_args \<Rightarrow> string \<Rightarrow> bool" where
  "included a n =
     ((case enable a of None \<Rightarrow> True | Some ns \<Rightarrow> n \<in> set ns) \<and>
      (case disable a of None \<Rightarrow> True | Some ns \<Rightarrow> n \<notin> set ns))"

definition builtin_component ::
    "'item list \<Rightarrow> 'pat list \<Rightarrow> bool \<Rightarrow> string \<Rightarrow> ('item, 'pat) component" where
  "builtin_component items pats rules n =
     Component n (if rules \<and> n = ''context'' then items else [])
       (if rules \<and> n = ''sectionizer'' then pats else [])"

definition medspacy_load ::
    "'item list \<Rightarrow> 'pat list \<Rightarrow> load_args \<Rightarrow> py_error + ('item, 'pat) pipeline" where
  "medspacy_load items pats a =
     Inr \<lparr>base_model = (case model a of None \<Rightarrow> ''en_core_web_sm'' | Some m \<Rightarrow> m),
          stages =
            map (builtin_component items pats (case load_rules a of None \<Rightarrow> True | Some b \<Rightarrow> b))
              (filter (included a) default_stage_names)\<rparr>"

text \<open>
  Modelled from the spec: the stage of a given name. The spec's pipeline is "an opaque
  ordered sequence of named processing stages"; \<^verbatim>\<open>get_pipe(name)\<close> gives the stage of
  that name, and raises if the pipeline has none.
\<close>

definition get_pipe ::
    "('item, 'pat) pipeline \<Rightarrow> string \<Rightarrow> py_error + ('item, 'pat) component" where
  "get_pipe p n =
     (case find (\<lambda>c. comp_name c = n) (stages p) of
        None \<Rightarrow> Inl (LibraryError n)
      | Some c \<Rightarrow> Inr c)"

text \<open>
  Three functions that the notebook calls are described neither by the spec nor by any
  source file: \<^verbatim>\<open>spacy.load\<close>, the constructor \<^verbatim>\<open>ConTextComponent\<close> and the method
  \<^verbatim>\<open>add_pipe\<close>. They are not modelled: the modelled library takes them as parameters, so
  that what is proved of it holds whatever they do.
\<close>

record ('item, 'pat) outside =
  given_spacy_load :: "string \<Rightarrow> py_error + ('item, 'pat) pipeline"
  given_ConTextComponent :: "('item, 'pat) pipeline \<Rightarrow> py_error + ('item, 'pat) component"
  given_add_pipe ::
    "('item, 'pat) pipeline \<Rightarrow> ('item, 'pat) component \<Rightarrow> py_error + ('item, 'pat) pipeline"

definition medspacy_library :: "'item list \<Rightarrow> 'pat list \<Rightarrow> ('item, 'pat) outside \<Rightarrow>
    (('item, 'pat) pipeline, ('item, 'pat) component, 'item, 'pat) library" where
  "medspacy_library items pats X =
     \<lparr>lib_importable = (\<lambda>m. m \<in> set [''medspacy'', ''spacy'', ''medspacy.context'']),
      lib_medspacy_load = medspacy_load items pats,
      lib_spacy_load = given_spacy_load X,
      lib_ConTextComponent = given_ConTextComponent X,
      lib_get_pipe = get_pipe,
      lib_add_pipe = given_add_pipe X,
      lib_pipe_names = pipe_names,
      lib_item_data = (\<lambda>c. Inr (comp_items c)),
      lib_patterns = (\<lambda>c. Inr (comp_patterns c))\<rparr>"

section \<open>Reading the notebook file\<close>

text \<open>The source lines of the code cell with execution count \<open>k\<close>, and its recorded result.\<close>

fun source_of :: "nat \<Rightarrow> cell list \<Rightarrow> string list option" where
  "source_of k [] = None"
| "source_of k (Markdown ls # cs) = source_of k cs"
| "source_of k (Code ec src outs # cs) = (if ec = Some k then Some src else source_of k cs)"

fun result_text :: "output list \<Rightarrow> string option" where
  "result_text [] = None"
| "result_text (ExecuteResult k ls # os) = Some (concat ls)"
| "result_text (Stream n ls # os) = result_text os"

fun stream_text :: "output list \<Rightarrow> string option" where
  "stream_text [] = None"
| "stream_text (ExecuteResult k ls # os) = stream_text os"
| "stream_text (Stream n ls # os) = Some (concat ls)"

fun outputs_of :: "nat \<Rightarrow> cell list \<Rightarrow> output list" where
  "outputs_of k [] = []"
| "outputs_of k (Markdown ls # cs) = outputs_of k cs"
| "outputs_of k (Code ec src outs # cs) = (if ec = Some k then outs else outputs_of k cs)"

text \<open>
  A recorded result that is a list of strings is the text Python prints for it: the
  strings in single quotes, separated by commas and spaces or line feeds, in square
  brackets. \<open>read_strs q\<close> reads the strings quoted by \<open>q\<close> up to the closing bracket;
  a backslash inside a string, or anything else between the strings, is refused.
\<close>

fun read_strs :: "char \<Rightarrow> bool \<Rightarrow> string \<Rightarrow> string list \<Rightarrow> string \<Rightarrow> string list option" where
  "read_strs q inside cur acc [] = None"
| "read_strs q inside cur acc (c # cs) =
     (if inside then
        (if c = q then read_strs q False [] (acc @ [cur]) cs
         else if c = CHR 0x5C then None
         else read_strs q True (cur @ [c]) acc cs)
      else if c = q then read_strs q True [] acc cs
      else if c = CHR '']'' then (if cs = [] then Some acc else None)
      else if c = CHR '','' \<or> c = CHR '' '' \<or> c = CHR 0x0A then read_strs q False [] acc cs
      else None)"

definition read_str_list :: "char \<Rightarrow> string \<Rightarrow> string list option" where
  "read_str_list q t =
     (case t of [] \<Rightarrow> None | c # cs \<Rightarrow> if c = CHR ''['' then read_strs q False [] [] cs else None)"

definition recorded_names :: "nat \<Rightarrow> string list option" where
  "recorded_names k =
     (case result_text (outputs_of k notebook) of
        None \<Rightarrow> None
      | Some t \<Rightarrow> read_str_list (CHR 0x27) t)"

text \<open>
  The calls of \<^verbatim>\<open>medspacy.load\<close> written in the notebook, in code and in prose:
  wherever a source line holds \<^verbatim>\<open>medspacy.load(\<close>, the text up to the parenthesis
  that closes the call (\<open>None\<close> if the line does not close it). Brackets nest, and a
  quoted string is skipped.
\<close>

fun strip_prefix :: "string \<Rightarrow> string \<Rightarrow> string option" where
  "strip_prefix [] ys = Some ys"
| "strip_prefix (x # xs) [] = None"
| "strip_prefix (x # xs) (y # ys) = (if x = y then strip_prefix xs ys else None)"

fun upto_close :: "nat \<Rightarrow> char option \<Rightarrow> string \<Rightarrow> string option" where
  "upto_close d q [] = None"
| "upto_close d (Some qc) (c # cs) =
     map_option ((#) c) (upto_close d (if c = qc then None else Some qc) cs)"
| "upto_close d None (c # cs) =
     (if c = CHR 0x22 \<or> c = CHR 0x27 then map_option ((#) c) (upto_close d (Some c) cs)
      else if c = CHR ''('' \<or> c = CHR ''['' then map_option ((#) c) (upto_close (Suc d) None cs)
      else if c = CHR '')'' \<and> d = 0 then Some []
      else if c = CHR '')'' \<or> c = CHR '']'' then
        (if d = 0 then None else map_option ((#) c) (upto_close (d - 1) None cs))
      else map_option ((#) c) (upto_close d None cs))"

fun calls_in :: "string \<Rightarrow> string option list" where
  "calls_in [] = []"
| "calls_in (c # cs) =
     (case strip_prefix ''medspacy.load('' (c # cs) of
        None \<Rightarrow> calls_in cs
      | Some rest \<Rightarrow> upto_close 0 None rest # calls_in cs)"

fun cell_source :: "cell \<Rightarrow> string list" where
  "cell_source (Markdown ls) = ls"
| "cell_source (Code ec ls outs) = ls"

definition load_calls :: "cell list \<Rightarrow> string option list" where
  "load_calls cs = concat (map calls_in (concat (map cell_source cs)))"

text \<open>
  The arguments of a call: its text split at the commas outside brackets and strings,
  each argument positional or \<^verbatim>\<open>name=value\<close>.
\<close>

definition trim :: "string \<Rightarrow> string" where
  "trim t = rev (dropWhile (\<lambda>c. c = CHR '' '') (rev (dropWhile (\<lambda>c. c = CHR '' '') t)))"

fun split_args :: "nat \<Rightarrow> char option \<Rightarrow> string \<Rightarrow> string list \<Rightarrow> string \<Rightarrow> string list" where
  "split_args d q cur acc [] = (if trim cur = [] then acc else acc @ [cur])"
| "split_args d (Some qc) cur acc (c # cs) =
     split_args d (if c = qc then None else Some qc) (cur @ [c]) acc cs"
| "split_args d None cur acc (c # cs) =
     (if c = CHR 0x22 \<or> c = CHR 0x27 then split_args d (Some c) (cur @ [c]) acc cs
      else if c = CHR ''('' \<or> c = CHR ''['' then split_args (Suc d) None (cur @ [c]) acc cs
      else if c = CHR '')'' \<or> c = CHR '']'' then split_args (d - 1) None (cur @ [c]) acc cs
      else if c = CHR '','' \<and> d = 0 then split_args 0 None [] (acc @ [cur]) cs
      else split_args d None (cur @ [c]) acc cs)"

datatype arg = Positional string | Keyword string string

definition ident_char :: "char \<Rightarrow> bool" where
  "ident_char c = (c \<in> set ''abcdefghijklmnopqrstuvwxyzABCDEFGHIJKLMNOPQRSTUVWXYZ0123456789_'')"

definition parse_arg :: "string \<Rightarrow> arg" where
  "parse_arg a =
     (let t = trim a; n = takeWhile ident_char t
      in case trim (dropWhile ident_char t) of
           [] \<Rightarrow> Positional t
         | c # v \<Rightarrow>
             if c = CHR ''='' \<and> n \<noteq> [] \<and> (v = [] \<or> hd v \<noteq> CHR ''='')
             then Keyword n (trim v) else Positional t)"

text \<open>
  The values the notebook writes as arguments: a string, a truth value, a list of
  strings. Any other expression is kept as its text.
\<close>

datatype pyval = PyStr string | PyBool bool | PyStrList "string list" | PyOther string

definition read_string :: "string \<Rightarrow> string option" where
  "read_string t =
     (case t of
        [] \<Rightarrow> None
      | q # cs \<Rightarrow>
          if (q = CHR 0x22 \<or> q = CHR 0x27) \<and> cs \<noteq> [] \<and> last cs = q \<and>
             q \<notin> set (butlast cs) \<and> CHR 0x5C \<notin> set cs
          then Some (butlast cs) else None)"

definition read_value :: "string \<Rightarrow> pyval" where
  "read_value t =
     (if t = ''True'' then PyBool True
      else if t = ''False'' then PyBool False
      else case read_string t of
        Some x \<Rightarrow> PyStr x
      | None \<Rightarrow>
          (case read_str_list (CHR 0x22) t of
             Some xs \<Rightarrow> PyStrList xs
           | None \<Rightarrow>
               (case read_str_list (CHR 0x27) t of
                  Some xs \<Rightarrow> PyStrList xs
                | None \<Rightarrow> PyOther t)))"

text \<open>An argument with its value read, and the arguments that a call writes.\<close>

datatype argument = Pos pyval | Key string pyval

definition eval_arg :: "arg \<Rightarrow> argument" where
  "eval_arg x =
     (case x of
        Positional v \<Rightarrow> Pos (read_value v)
      | Keyword n v \<Rightarrow> Key n (read_value v))"

definition call_arguments :: "string \<Rightarrow> argument list" where
  "call_arguments x = map (\<lambda>y. eval_arg (parse_arg y)) (split_args 0 None [] [] x)"

fun all_some :: "'a option list \<Rightarrow> 'a list option" where
  "all_some [] = Some []"
| "all_some (None # xs) = None"
| "all_some (Some x # xs) = map_option ((#) x) (all_some xs)"

text \<open>
  How Python binds the arguments of a call to the parameters \<open>ps\<close> of a function that
  takes neither \<^verbatim>\<open>*args\<close> nor \<^verbatim>\<open>**kwargs\<close> and whose parameters all have defaults
  (\<^verbatim>\<open>medspacy.load()\<close> is called without arguments). A positional argument after a
  keyword argument is a syntax error. The positional arguments bind the first
  parameters, in order; more of them than parameters is a \<^verbatim>\<open>TypeError\<close>. A keyword
  argument binds the parameter it names; it is a \<^verbatim>\<open>TypeError\<close> if no parameter has the
  name, and an error if the parameter is bound already. The result is the list of the
  parameters bound, each with its value, in the order of the arguments.
\<close>

datatype call_error =
    PositionalFollowsKeyword
  | TooManyPositional
  | UnexpectedKeyword string
  | MultipleValues string

fun is_positional :: "argument \<Rightarrow> bool" where
  "is_positional (Pos v) = True"
| "is_positional (Key n v) = False"

fun value_of :: "argument \<Rightarrow> pyval" where
  "value_of (Pos v) = v"
| "value_of (Key n v) = v"

fun bind_keywords :: "string list \<Rightarrow> (string \<times> pyval) list \<Rightarrow> argument list \<Rightarrow>
    call_error + (string \<times> pyval) list" where
  "bind_keywords ps b [] = Inr b"
| "bind_keywords ps b (Pos v # as) = Inl PositionalFollowsKeyword"
| "bind_keywords ps b (Key n v # as) =
     (if n \<notin> set ps then Inl (UnexpectedKeyword n)
      else if n \<in> set (map fst b) then Inl (MultipleValues n)
      else bind_keywords ps (b @ [(n, v)]) as)"

definition bind :: "string list \<Rightarrow> argument list \<Rightarrow> call_error + (string \<times> pyval) list" where
  "bind ps as =
     (let pos = takeWhile is_positional as; kws = dropWhile is_positional as
      in if list_ex is_positional kws then Inl PositionalFollowsKeyword
         else if length ps < length pos then Inl TooManyPositional
         else bind_keywords ps (zip ps (map value_of pos)) kws)"

text \<open>
  Modelled from the spec: the parameters of \<^verbatim>\<open>medspacy.load\<close>, whose code is missing
  from the source files. The spec's configuration is "a base language-model name, a
  boolean controlling whether built-in rule sets are loaded, and optional
  allow-list/deny-list parameters naming which pipeline stages to include or exclude";
  the notebook names them \<^verbatim>\<open>model\<close> (which it passes as the first positional argument),
  \<^verbatim>\<open>load_rules\<close>, \<^verbatim>\<open>enable\<close> and \<^verbatim>\<open>disable\<close>. Neither says in which order the function
  declares the last three, so a signature is any list of exactly these four parameters
  that starts with \<^verbatim>\<open>model\<close>.
\<close>

definition load_parameters :: "string set" where
  "load_parameters = {''model'', ''load_rules'', ''enable'', ''disable''}"

definition load_signature :: "string list \<Rightarrow> bool" where
  "load_signature ps = (distinct ps \<and> set ps = load_parameters \<and> take 1 ps = [''model''])"

text \<open>
  Modelled from the spec: the configuration that bound parameters give, \<open>None\<close> if a
  value is not of the kind that the spec gives the parameter (a name, a boolean, a list
  of stage names).
\<close>

fun configure :: "(string \<times> pyval) list \<Rightarrow> load_args \<Rightarrow> load_args option" where
  "configure [] a = Some a"
| "configure ((n, v) # b) a =
     (case v of
        PyStr m \<Rightarrow> if n = ''model'' then configure b (a\<lparr>model := Some m\<rparr>) else None
      | PyBool x \<Rightarrow>
          if n = ''load_rules'' then configure b (a\<lparr>load_rules := Some x\<rparr>) else None
      | PyStrList xs \<Rightarrow>
          if n = ''enable'' then configure b (a\<lparr>enable := Some xs\<rparr>)
          else if n = ''disable'' then configure b (a\<lparr>disable := Some xs\<rparr>) else None
      | PyOther t \<Rightarrow> None)"

text \<open>
  The configuration that a call of \<^verbatim>\<open>medspacy.load\<close> written in the notebook gives,
  under the signature \<open>ps\<close>: \<open>None\<close> if the call does not close, its arguments are not
  accepted, or they are not of the spec's kinds.
\<close>

definition read_call :: "string list \<Rightarrow> string option \<Rightarrow> load_args option" where
  "read_call ps t =
     (case t of
        None \<Rightarrow> None
      | Some x \<Rightarrow>
          (case bind ps (call_arguments x) of
             Inl e \<Rightarrow> None
           | Inr b \<Rightarrow> configure b no_args))"

text \<open>The keyword arguments that supply a configuration, parameter by parameter.\<close>

definition pairs_of :: "load_args \<Rightarrow> (string \<times> pyval) list" where
  "pairs_of c =
     (case model c of None \<Rightarrow> [] | Some m \<Rightarrow> [(''model'', PyStr m)]) @
     (case load_rules c of None \<Rightarrow> [] | Some b \<Rightarrow> [(''load_rules'', PyBool b)]) @
     (case enable c of None \<Rightarrow> [] | Some xs \<Rightarrow> [(''enable'', PyStrList xs)]) @
     (case disable c of None \<Rightarrow> [] | Some xs \<Rightarrow> [(''disable'', PyStrList xs)])"

definition keyword_arguments :: "(string \<times> pyval) list \<Rightarrow> argument list" where
  "keyword_arguments kws = map (\<lambda>(n, v). Key n v) kws"

text \<open>
  A recorded result that is a list of objects, one object per line: the object of a line
  is the line without the opening bracket or the space before it and without the line
  feed and the comma or closing bracket after it.
\<close>

fun result_lines :: "output list \<Rightarrow> string list" where
  "result_lines [] = []"
| "result_lines (ExecuteResult k ls # os) = ls"
| "result_lines (Stream n ls # os) = result_lines os"

definition element_of_line :: "string \<Rightarrow> string" where
  "element_of_line l =
     (let a = (case l of [] \<Rightarrow> [] | c # cs \<Rightarrow> if c = CHR ''['' \<or> c = CHR '' '' then cs else l);
          b = (if a \<noteq> [] \<and> last a = CHR 0x0A then butlast a else a)
      in if b \<noteq> [] \<and> (last b = CHR '','' \<or> last b = CHR '']'') then butlast b else b)"

definition recorded_elements :: "nat \<Rightarrow> string list" where
  "recorded_elements k = map element_of_line (result_lines (outputs_of k notebook))"

text \<open>
  A dictionary of strings as Python prints it, \<^verbatim>\<open>{'key': 'value', ...}\<close>: its
  keys with their values, in order; anything else is refused.
\<close>

definition read_pair :: "string \<Rightarrow> (string \<times> string) option" where
  "read_pair p =
     (case trim p of
        [] \<Rightarrow> None
      | q # rest \<Rightarrow>
          if q \<noteq> CHR 0x27 then None
          else (let k = takeWhile (\<lambda>c. c \<noteq> q) rest
                in case strip_prefix [q, CHR '':'', CHR '' ''] (drop (length k) rest) of
                     None \<Rightarrow> None
                   | Some v \<Rightarrow> map_option (Pair k) (read_string v)))"

definition read_dict :: "string \<Rightarrow> (string \<times> string) list option" where
  "read_dict e =
     (case e of
        [] \<Rightarrow> None
      | c # cs \<Rightarrow>
          if c = CHR ''{'' \<and> cs \<noteq> [] \<and> last cs = CHR ''}''
          then all_some (map read_pair (split_args 0 None [] [] (butlast cs)))
          else None)"

text \<open>The printed object is a dictionary with the keys \<^verbatim>\<open>section_title\<close> and \<^verbatim>\<open>pattern\<close>
  and no other, both values strings.\<close>

definition is_section_pattern :: "string \<Rightarrow> bool" where
  "is_section_pattern e =
     (case read_dict e of
        None \<Rightarrow> False
      | Some d \<Rightarrow> map fst d = [''section_title'', ''pattern''])"

text \<open>
  A rule item as the notebook shows it, \<^verbatim>\<open>ConTextItem(name=value, ...)\<close>: the names
  with the texts of their values, in order.
\<close>

fun keyword_of :: "arg \<Rightarrow> (string \<times> string) option" where
  "keyword_of (Positional v) = None"
| "keyword_of (Keyword n v) = Some (n, v)"

definition read_item :: "string \<Rightarrow> (string \<times> string) list option" where
  "read_item e =
     (case strip_prefix ''ConTextItem('' e of
        None \<Rightarrow> None
      | Some r \<Rightarrow>
          (case upto_close 0 None r of
             None \<Rightarrow> None
           | Some a \<Rightarrow>
               if Suc (length a) = length r
               then all_some (map (\<lambda>x. keyword_of (parse_arg x)) (split_args 0 None [] [] a))
               else None))"

text \<open>
  The printed object shows exactly the fields \<^verbatim>\<open>literal\<close>, \<^verbatim>\<open>category\<close>, \<^verbatim>\<open>pattern\<close>
  and \<^verbatim>\<open>rule\<close>: the first two strings, the pattern \<^verbatim>\<open>None\<close> or a list, the rule one
  of the strings \<^verbatim>\<open>FORWARD\<close>, \<^verbatim>\<open>BACKWARD\<close>, \<^verbatim>\<open>TERMINATE\<close>.
\<close>

definition is_pattern_text :: "string \<Rightarrow> bool" where
  "is_pattern_text v = (v = ''None'' \<or> (v \<noteq> [] \<and> hd v = CHR ''['' \<and> last v = CHR '']''))"

definition is_rule_item :: "string \<Rightarrow> bool" where
  "is_rule_item e =
     (case read_item e of
        Some [(n1, v1), (n2, v2), (n3, v3), (n4, v4)] \<Rightarrow>
          [n1, n2, n3, n4] = [''literal'', ''category'', ''pattern'', ''rule''] \<and>
          read_string v1 \<noteq> None \<and> read_string v2 \<noteq> None \<and> is_pattern_text v3 \<and>
          read_string v4 \<in> {Some ''FORWARD'', Some ''BACKWARD'', Some ''TERMINATE''}
      | _ \<Rightarrow> False)"

section \<open>The operations of a run\<close>

text \<open>
  The events each code cell adds when it raises nothing, by execution count; that
  the cells do add exactly these is lemma \<open>code_events\<close> below.
\<close>

definition ops :: "nat \<Rightarrow> event list" where
  "ops k =
     (if k = 1 then [Import ''medspacy'']
      else if k = 2 then [Call ''medspacy.load'']
      else if k = 3 then [GetAttr ''pipe_names'']
      else if k = 4 then [Call ''get_pipe'']
      else if k = 5 then [GetAttr ''item_data'']
      else if k = 6 then [Call ''get_pipe'']
      else if k = 7 then [GetAttr ''patterns'']
      else if k = 8 then [Call ''medspacy.load'', GetAttr ''pipe_names'']
      else if k = 9 then [Call ''medspacy.load'', GetAttr ''pipe_names'']
      else if k = 10 then [Import ''spacy'']
      else if k = 11 then [Call ''spacy.load'']
      else if k = 12 then [Import ''medspacy.context'']
      else if k = 13 then [Call ''ConTextComponent'']
      else if k = 14 then [Call ''add_pipe'']
      else if k = 15 then [GetAttr ''pipe_names'']
      else if k = 16 then
        [Open ''./discharge_summary.txt'', Read ''./discharge_summary.txt'',
         Close ''./discharge_summary.txt'']
      else if k = 17 then [Print]
      else [])"

fun cell_ops :: "cell \<Rightarrow> event list" where
  "cell_ops (Markdown ls) = []"
| "cell_ops (Code None src outs) = []"
| "cell_ops (Code (Some k) src outs) = ops k"

text \<open>
  The kinds of operation the spec lists, in the order it lists them: "library import,
  pipeline construction with optional component allow/deny lists, metadata
  introspection (\<^verbatim>\<open>pipe_names\<close>, rule-list previews), file read, string slice
  print". Loading a pipeline, constructing a component and adding it to a pipeline
  build pipelines; fetching a stage and reading an attribute inspect one.
\<close>

datatype phase =
    LibraryImport
  | PipelineConstruction
  | MetadataIntrospection
  | FileRead
  | SlicePrint

fun phase_of :: "event \<Rightarrow> phase" where
  "phase_of (Import m) = LibraryImport"
| "phase_of (Call n) = (if n = ''get_pipe'' then MetadataIntrospection else PipelineConstruction)"
| "phase_of (GetAttr n) = MetadataIntrospection"
| "phase_of (Open p) = FileRead"
| "phase_of (Read p) = FileRead"
| "phase_of (Close p) = FileRead"
| "phase_of Print = SlicePrint"

fun listed :: "phase \<Rightarrow> nat" where
  "listed LibraryImport = 0"
| "listed PipelineConstruction = 1"
| "listed MetadataIntrospection = 2"
| "listed FileRead = 3"
| "listed SlicePrint = 4"

text \<open>No operation happens before one of a kind listed earlier.\<close>

definition in_listed_order :: "event list \<Rightarrow> bool" where
  "in_listed_order evs = sorted (map (\<lambda>e. listed (phase_of e)) evs)"

fun is_file_op :: "event \<Rightarrow> bool" where
  "is_file_op (Open p) = True"
| "is_file_op (Read p) = True"
| "is_file_op (Close p) = True"
| "is_file_op e = False"

definition file_ops :: "event list \<Rightarrow> event list" where
  "file_ops evs = filter is_file_op evs"

text \<open>The state after the first \<open>n\<close> cells of the notebook.\<close>

definition run_to :: "nat \<Rightarrow> ('nlp, 'comp, 'item, 'pat) library \<Rightarrow> file_system \<Rightarrow>
    ('nlp, 'comp, 'item, 'pat) state" where
  "run_to n L fs = exec_cells L (take n notebook) (init fs)"


text \<open>
  The cells that come before the code cell with execution count \<open>k\<close>, and the state
  in which that cell starts when the notebook is run from the top.
\<close>

definition cells_before :: "nat \<Rightarrow> cell list" where
  "cells_before k = takeWhile (\<lambda>c. source_of k [c] = None) notebook"

definition before :: "nat \<Rightarrow> ('nlp, 'comp, 'item, 'pat) library \<Rightarrow> file_system \<Rightarrow>
    ('nlp, 'comp, 'item, 'pat) state" where
  "before k L fs = exec_cells L (cells_before k) (init fs)"

text \<open>
  A concrete run, as an input on which to evaluate what is proved for every library and
  file system. The file system's \<^verbatim>\<open>./discharge_summary.txt\<close> holds the 500 characters
  that the notebook file records as printed (the recorded stream without the line feed
  that \<^verbatim>\<open>print\<close> adds). The library is the modelled one with empty built-in rule sets;
  for its three parameters the sample takes functions with which the run reproduces the
  names that the notebook file records for the cell \<^verbatim>\<open>en.pipe_names\<close>: a loader that
  gives three stages, a constructor that gives a component named \<^verbatim>\<open>context\<close>, and an
  \<^verbatim>\<open>add_pipe\<close> that puts the component last. They are a sample, not a description of
  these functions.
\<close>

definition sample_text :: string where
  "sample_text = butlast (concat output_26)"

definition sample_files :: file_system where
  "sample_files = [''./discharge_summary.txt'' \<mapsto> Inr sample_text]"

definition sample_outside :: "(unit, unit) outside" where
  "sample_outside =
     \<lparr>given_spacy_load =
        (\<lambda>m. Inr \<lparr>base_model = m,
                  stages = map (\<lambda>n. Component n [] []) [''tagger'', ''parser'', ''ner'']\<rparr>),
      given_ConTextComponent = (\<lambda>p. Inr (Component ''context'' [] [])),
      given_add_pipe = (\<lambda>p c. Inr (p\<lparr>stages := stages p @ [c]\<rparr>))\<rparr>"

definition sample_library ::
    "((unit, unit) pipeline, (unit, unit) component, unit, unit) library" where
  "sample_library = medspacy_library [] [] sample_outside"

section \<open>Objects and references\<close>

text \<open>
  A Python variable holds a reference to an object: two variables may name one object,
  and a method that changes an object changes it behind every name. To state what the
  notebook's operations do to the objects, the notebook is run a second time on a store of
  objects. The store is the library's: the notebook holds references only, and every
  library function is given the store and returns it, changed or not, with its result.
  \<open>rl_object\<close> is the object behind a reference in a store, if there is one.
\<close>

type_synonym ref = nat

record ('h, 'obj, 'item, 'pat) ref_library =
  rl_importable :: "string \<Rightarrow> bool"
  rl_object :: "'h \<Rightarrow> ref \<Rightarrow> 'obj option"
  rl_medspacy_load :: "load_args \<Rightarrow> 'h \<Rightarrow> (py_error + ref) \<times> 'h"
  rl_spacy_load :: "string \<Rightarrow> 'h \<Rightarrow> (py_error + ref) \<times> 'h"
  rl_ConTextComponent :: "ref \<Rightarrow> 'h \<Rightarrow> (py_error + ref) \<times> 'h"
  rl_get_pipe :: "ref \<Rightarrow> string \<Rightarrow> 'h \<Rightarrow> (py_error + ref) \<times> 'h"
  rl_add_pipe :: "ref \<Rightarrow> ref \<Rightarrow> 'h \<Rightarrow> (py_error + unit) \<times> 'h"
  rl_pipe_names :: "ref \<Rightarrow> 'h \<Rightarrow> (py_error + string list) \<times> 'h"
  rl_item_data :: "ref \<Rightarrow> 'h \<Rightarrow> (py_error + 'item list) \<times> 'h"
  rl_patterns :: "ref \<Rightarrow> 'h \<Rightarrow> (py_error + 'pat list) \<times> 'h"

text \<open>The kernel state with the store; the variables hold references.\<close>

record ('h, 'item, 'pat) kernel = "(ref, ref, 'item, 'pat) state" +
  store :: 'h

definition ref_init :: "'h \<Rightarrow> file_system \<Rightarrow> ('h, 'item, 'pat) kernel" where
  "ref_init h fs =
     \<lparr>names = [], v_nlp = None, v_context = None, v_sectionizer = None,
      v_nlp_sectionizer_only = None, v_nlp_no_pos_dep = None, v_en = None, v_text = None,
      files = fs, open_files = [], events = [], displayed = [], stdout = [],
      raised = None, store = h\<rparr>"

text \<open>
  The statements that reach the library. A call and the read of an attribute run library
  code on the store: the store is what the library leaves, also when it raises.
\<close>

definition ref_import :: "('h, 'obj, 'item, 'pat) ref_library \<Rightarrow> string \<Rightarrow> string \<Rightarrow>
    ('h, 'item, 'pat) kernel \<Rightarrow> ('h, 'item, 'pat) kernel" where
  "ref_import L m n s =
     (if rl_importable L m then (log (Import m) s)\<lparr>names := n # names s\<rparr>
      else raise (ModuleNotFoundError m) (log (Import m) s))"

definition ref_call :: "string \<Rightarrow> ('h \<Rightarrow> (py_error + 'a) \<times> 'h) \<Rightarrow>
    ('a \<Rightarrow> ('h, 'item, 'pat) kernel \<Rightarrow> ('h, 'item, 'pat) kernel) \<Rightarrow>
    ('h, 'item, 'pat) kernel \<Rightarrow> ('h, 'item, 'pat) kernel" where
  "ref_call nm f k s =
     (case f (store s) of
        (Inl e, h) \<Rightarrow> raise e (log (Call nm) (s\<lparr>store := h\<rparr>))
      | (Inr v, h) \<Rightarrow> k v (log (Call nm) (s\<lparr>store := h\<rparr>)))"

definition ref_attr :: "string \<Rightarrow> ('h \<Rightarrow> (py_error + 'a) \<times> 'h) \<Rightarrow>
    ('a \<Rightarrow> ('h, 'item, 'pat) kernel \<Rightarrow> ('h, 'item, 'pat) kernel) \<Rightarrow>
    ('h, 'item, 'pat) kernel \<Rightarrow> ('h, 'item, 'pat) kernel" where
  "ref_attr nm f k s =
     (case f (store s) of
        (Inl e, h) \<Rightarrow> raise e (log (GetAttr nm) (s\<lparr>store := h\<rparr>))
      | (Inr v, h) \<Rightarrow> k v (log (GetAttr nm) (s\<lparr>store := h\<rparr>)))"

text \<open>The code cells on the store, each by its execution count, with its source.\<close>

text \<open>\<^verbatim>\<open>import medspacy\<close>\<close>

definition ref_code_1 :: "('h, 'obj, 'item, 'pat) ref_library \<Rightarrow>
    ('h, 'item, 'pat) kernel \<Rightarrow> ('h, 'item, 'pat) kernel" where
  "ref_code_1 L = ref_import L ''medspacy'' ''medspacy''"

text \<open>\<^verbatim>\<open>nlp = medspacy.load()\<close>\<close>

definition ref_code_2 :: "('h, 'obj, 'item, 'pat) ref_library \<Rightarrow>
    ('h, 'item, 'pat) kernel \<Rightarrow> ('h, 'item, 'pat) kernel" where
  "ref_code_2 L =
     imported ''medspacy''
       (ref_call ''medspacy.load'' (rl_medspacy_load L no_args) (\<lambda>p s. s\<lparr>v_nlp := Some p\<rparr>))"

text \<open>\<^verbatim>\<open>nlp.pipe_names\<close>\<close>

definition ref_code_3 :: "('h, 'obj, 'item, 'pat) ref_library \<Rightarrow>
    ('h, 'item, 'pat) kernel \<Rightarrow> ('h, 'item, 'pat) kernel" where
  "ref_code_3 L =
     var v_nlp ''nlp''
       (\<lambda>p. ref_attr ''pipe_names'' (rl_pipe_names L p) (\<lambda>ns. display 3 (ShownNames ns)))"

text \<open>\<^verbatim>\<open>context = nlp.get_pipe("context")\<close>\<close>

definition ref_code_4 :: "('h, 'obj, 'item, 'pat) ref_library \<Rightarrow>
    ('h, 'item, 'pat) kernel \<Rightarrow> ('h, 'item, 'pat) kernel" where
  "ref_code_4 L =
     var v_nlp ''nlp''
       (\<lambda>p. ref_call ''get_pipe'' (rl_get_pipe L p ''context'')
          (\<lambda>c s. s\<lparr>v_context := Some c\<rparr>))"

text \<open>\<^verbatim>\<open>context.item_data[:10]\<close>\<close>

definition ref_code_5 :: "('h, 'obj, 'item, 'pat) ref_library \<Rightarrow>
    ('h, 'item, 'pat) kernel \<Rightarrow> ('h, 'item, 'pat) kernel" where
  "ref_code_5 L =
     var v_context ''context''
       (\<lambda>c. ref_attr ''item_data'' (rl_item_data L c)
          (\<lambda>xs. display 5 (ShownItems (take 10 xs))))"

text \<open>\<^verbatim>\<open>sectionizer = nlp.get_pipe("sectionizer")\<close>\<close>

definition ref_code_6 :: "('h, 'obj, 'item, 'pat) ref_library \<Rightarrow>
    ('h, 'item, 'pat) kernel \<Rightarrow> ('h, 'item, 'pat) kernel" where
  "ref_code_6 L =
     var v_nlp ''nlp''
       (\<lambda>p. ref_call ''get_pipe'' (rl_get_pipe L p ''sectionizer'')
          (\<lambda>c s. s\<lparr>v_sectionizer := Some c\<rparr>))"

text \<open>\<^verbatim>\<open>sectionizer.patterns[:10]\<close>\<close>

definition ref_code_7 :: "('h, 'obj, 'item, 'pat) ref_library \<Rightarrow>
    ('h, 'item, 'pat) kernel \<Rightarrow> ('h, 'item, 'pat) kernel" where
  "ref_code_7 L =
     var v_sectionizer ''sectionizer''
       (\<lambda>c. ref_attr ''patterns'' (rl_patterns L c)
          (\<lambda>xs. display 7 (ShownPatterns (take 10 xs))))"

text \<open>
  \<^verbatim>\<open>nlp_sectionizer_only = medspacy.load(enable=["sectionizer"])\<close>,
  \<^verbatim>\<open>nlp_sectionizer_only.pipe_names\<close>
\<close>

definition ref_code_8 :: "('h, 'obj, 'item, 'pat) ref_library \<Rightarrow>
    ('h, 'item, 'pat) kernel \<Rightarrow> ('h, 'item, 'pat) kernel" where
  "ref_code_8 L =
     thn
       (imported ''medspacy''
          (ref_call ''medspacy.load''
             (rl_medspacy_load L (no_args\<lparr>enable := Some [''sectionizer'']\<rparr>))
             (\<lambda>p s. s\<lparr>v_nlp_sectionizer_only := Some p\<rparr>)))
       (var v_nlp_sectionizer_only ''nlp_sectionizer_only''
          (\<lambda>p. ref_attr ''pipe_names'' (rl_pipe_names L p) (\<lambda>ns. display 8 (ShownNames ns))))"

text \<open>
  \<^verbatim>\<open>nlp_no_pos_dep = medspacy.load(disable=["tagger", "parser"])\<close>,
  \<^verbatim>\<open>nlp_no_pos_dep.pipe_names\<close>
\<close>

definition ref_code_9 :: "('h, 'obj, 'item, 'pat) ref_library \<Rightarrow>
    ('h, 'item, 'pat) kernel \<Rightarrow> ('h, 'item, 'pat) kernel" where
  "ref_code_9 L =
     thn
       (imported ''medspacy''
          (ref_call ''medspacy.load''
             (rl_medspacy_load L (no_args\<lparr>disable := Some [''tagger'', ''parser'']\<rparr>))
             (\<lambda>p s. s\<lparr>v_nlp_no_pos_dep := Some p\<rparr>)))
       (var v_nlp_no_pos_dep ''nlp_no_pos_dep''
          (\<lambda>p. ref_attr ''pipe_names'' (rl_pipe_names L p) (\<lambda>ns. display 9 (ShownNames ns))))"

text \<open>\<^verbatim>\<open>import spacy\<close>\<close>

definition ref_code_10 :: "('h, 'obj, 'item, 'pat) ref_library \<Rightarrow>
    ('h, 'item, 'pat) kernel \<Rightarrow> ('h, 'item, 'pat) kernel" where
  "ref_code_10 L = ref_import L ''spacy'' ''spacy''"

text \<open>\<^verbatim>\<open>en = spacy.load("en_core_web_sm")\<close>\<close>

definition ref_code_11 :: "('h, 'obj, 'item, 'pat) ref_library \<Rightarrow>
    ('h, 'item, 'pat) kernel \<Rightarrow> ('h, 'item, 'pat) kernel" where
  "ref_code_11 L =
     imported ''spacy''
       (ref_call ''spacy.load'' (rl_spacy_load L ''en_core_web_sm'')
          (\<lambda>p s. s\<lparr>v_en := Some p\<rparr>))"

text \<open>\<^verbatim>\<open>from medspacy.context import ConTextComponent\<close>\<close>

definition ref_code_12 :: "('h, 'obj, 'item, 'pat) ref_library \<Rightarrow>
    ('h, 'item, 'pat) kernel \<Rightarrow> ('h, 'item, 'pat) kernel" where
  "ref_code_12 L = ref_import L ''medspacy.context'' ''ConTextComponent''"

text \<open>\<^verbatim>\<open>context = ConTextComponent(nlp)\<close>\<close>

definition ref_code_13 :: "('h, 'obj, 'item, 'pat) ref_library \<Rightarrow>
    ('h, 'item, 'pat) kernel \<Rightarrow> ('h, 'item, 'pat) kernel" where
  "ref_code_13 L =
     imported ''ConTextComponent''
       (var v_nlp ''nlp''
          (\<lambda>p. ref_call ''ConTextComponent'' (rl_ConTextComponent L p)
             (\<lambda>c s. s\<lparr>v_context := Some c\<rparr>)))"

text \<open>
  \<^verbatim>\<open>en.add_pipe(context)\<close>: the method is called on the object that \<^verbatim>\<open>en\<close> names, with
  the object that \<^verbatim>\<open>context\<close> names; its result is dropped and no variable is assigned.
\<close>

definition ref_code_14 :: "('h, 'obj, 'item, 'pat) ref_library \<Rightarrow>
    ('h, 'item, 'pat) kernel \<Rightarrow> ('h, 'item, 'pat) kernel" where
  "ref_code_14 L =
     var v_en ''en''
       (\<lambda>p. var v_context ''context''
          (\<lambda>c. ref_call ''add_pipe'' (rl_add_pipe L p c) (\<lambda>u s. s)))"

text \<open>\<^verbatim>\<open>en.pipe_names\<close>\<close>

definition ref_code_15 :: "('h, 'obj, 'item, 'pat) ref_library \<Rightarrow>
    ('h, 'item, 'pat) kernel \<Rightarrow> ('h, 'item, 'pat) kernel" where
  "ref_code_15 L =
     var v_en ''en''
       (\<lambda>p. ref_attr ''pipe_names'' (rl_pipe_names L p) (\<lambda>ns. display 15 (ShownNames ns)))"

text \<open>The last two cells reach no object of the library: they are as before.\<close>

definition ref_code :: "('h, 'obj, 'item, 'pat) ref_library \<Rightarrow> nat \<Rightarrow>
    ('h, 'item, 'pat) kernel \<Rightarrow> ('h, 'item, 'pat) kernel" where
  "ref_code L k =
     (if k = 1 then ref_code_1 L else if k = 2 then ref_code_2 L
      else if k = 3 then ref_code_3 L else if k = 4 then ref_code_4 L
      else if k = 5 then ref_code_5 L else if k = 6 then ref_code_6 L
      else if k = 7 then ref_code_7 L else if k = 8 then ref_code_8 L
      else if k = 9 then ref_code_9 L else if k = 10 then ref_code_10 L
      else if k = 11 then ref_code_11 L else if k = 12 then ref_code_12 L
      else if k = 13 then ref_code_13 L else if k = 14 then ref_code_14 L
      else if k = 15 then ref_code_15 L
      else if k = 16 then code_16 else if k = 17 then code_17 else id)"

definition ref_exec_cell :: "('h, 'obj, 'item, 'pat) ref_library \<Rightarrow> cell \<Rightarrow>
    ('h, 'item, 'pat) kernel \<Rightarrow> ('h, 'item, 'pat) kernel" where
  "ref_exec_cell L c s =
     (if raised s \<noteq> None then s
      else case c of
        Markdown _ \<Rightarrow> s
      | Code None _ _ \<Rightarrow> s
      | Code (Some k) _ _ \<Rightarrow> ref_code L k s)"

definition ref_exec_cells :: "('h, 'obj, 'item, 'pat) ref_library \<Rightarrow> cell list \<Rightarrow>
    ('h, 'item, 'pat) kernel \<Rightarrow> ('h, 'item, 'pat) kernel" where
  "ref_exec_cells L cs s = fold (ref_exec_cell L) cs s"

definition ref_run :: "('h, 'obj, 'item, 'pat) ref_library \<Rightarrow> 'h \<Rightarrow> file_system \<Rightarrow>
    ('h, 'item, 'pat) kernel" where
  "ref_run L h fs = ref_exec_cells L notebook (ref_init h fs)"


text \<open>
  From one store to a later one, every object is kept but those behind the references
  \<open>X\<close>: an object of the first store whose reference is not in \<open>X\<close> is the same object in
  the second. Objects may have been added.
\<close>

definition is_object :: "('h, 'obj, 'item, 'pat) ref_library \<Rightarrow> 'h \<Rightarrow> ref \<Rightarrow> bool" where
  "is_object L h r = (rl_object L h r \<noteq> None)"

definition keeps :: "('h, 'obj, 'item, 'pat) ref_library \<Rightarrow> ref set \<Rightarrow> 'h \<Rightarrow> 'h \<Rightarrow> bool" where
  "keeps L X h h' =
     (\<forall>r. r \<notin> X \<longrightarrow> is_object L h r \<longrightarrow> rl_object L h' r = rl_object L h r)"












text \<open>
  A library on a store, as an input on which to evaluate what is proved for every
  well-behaved library. The store is the list of its objects, a reference the position
  of an object. A pipeline holds the references of its stages, a stage its name. The
  two loaders add the stages and then the pipeline; \<^verbatim>\<open>medspacy.load\<close> takes its stage
  names from the modelled factory, and \<^verbatim>\<open>spacy.load\<close>, \<^verbatim>\<open>ConTextComponent\<close> and
  \<^verbatim>\<open>add_pipe\<close> are the sample's own, as in the sample library above.
\<close>

datatype sample_object = Pipe "ref list" | Stage string

definition sample_object_at :: "sample_object list \<Rightarrow> ref \<Rightarrow> sample_object option" where
  "sample_object_at h r = (if r < length h then Some (h ! r) else None)"

definition new_pipeline ::
    "string list \<Rightarrow> sample_object list \<Rightarrow> (py_error + ref) \<times> sample_object list" where
  "new_pipeline ns h =
     (Inr (length h + length ns),
      h @ map Stage ns @ [Pipe [length h ..< length h + length ns]])"

definition sample_get_pipe ::
    "ref \<Rightarrow> string \<Rightarrow> sample_object list \<Rightarrow> (py_error + ref) \<times> sample_object list" where
  "sample_get_pipe p n h =
     (case sample_object_at h p of
        Some (Pipe rs) \<Rightarrow>
          (case find (\<lambda>r. sample_object_at h r = Some (Stage n)) rs of
             Some r \<Rightarrow> (Inr r, h)
           | None \<Rightarrow> (Inl (LibraryError n), h))
      | _ \<Rightarrow> (Inl (LibraryError ''get_pipe''), h))"

definition sample_add_pipe ::
    "ref \<Rightarrow> ref \<Rightarrow> sample_object list \<Rightarrow> (py_error + unit) \<times> sample_object list" where
  "sample_add_pipe p c h =
     (case sample_object_at h p of
        Some (Pipe rs) \<Rightarrow> (Inr (), h[p := Pipe (rs @ [c])])
      | _ \<Rightarrow> (Inl (LibraryError ''add_pipe''), h))"

fun stage_name :: "sample_object option \<Rightarrow> string" where
  "stage_name (Some (Stage n)) = n"
| "stage_name x = []"

definition sample_pipe_names ::
    "ref \<Rightarrow> sample_object list \<Rightarrow> (py_error + string list) \<times> sample_object list" where
  "sample_pipe_names p h =
     (case sample_object_at h p of
        Some (Pipe rs) \<Rightarrow> (Inr (map (\<lambda>r. stage_name (sample_object_at h r)) rs), h)
      | _ \<Rightarrow> (Inl (LibraryError ''pipe_names''), h))"

definition sample_ref_library :: "(sample_object list, sample_object, unit, unit) ref_library" where
  "sample_ref_library =
     \<lparr>rl_importable = (\<lambda>m. m \<in> set [''medspacy'', ''spacy'', ''medspacy.context'']),
      rl_object = sample_object_at,
      rl_medspacy_load = (\<lambda>a. new_pipeline (filter (included a) default_stage_names)),
      rl_spacy_load = (\<lambda>m. new_pipeline [''tagger'', ''parser'', ''ner'']),
      rl_ConTextComponent = (\<lambda>p h. (Inr (length h), h @ [Stage ''context''])),
      rl_get_pipe = sample_get_pipe,
      rl_add_pipe = sample_add_pipe,
      rl_pipe_names = sample_pipe_names,
      rl_item_data = (\<lambda>c h. (Inr [], h)),
      rl_patterns = (\<lambda>c h. (Inr [], h))\<rparr>"

section \<open>Properties\<close>

lemmas stmt_defs = raise_def log_def thn_def py_import_def imported_def var_def call_def attr_def
  display_def with_open_def read_into_text_def py_print_def

lemmas code_defs = code_def code_1_def code_2_def code_3_def code_4_def code_5_def code_6_def
  code_7_def code_8_def code_9_def code_10_def code_11_def code_12_def code_13_def code_14_def
  code_15_def code_16_def code_17_def

lemmas cell_code_defs = code_1_def code_2_def code_3_def code_4_def code_5_def code_6_def
  code_7_def code_8_def code_9_def code_10_def code_11_def code_12_def code_13_def code_14_def
  code_15_def code_16_def code_17_def

lemmas cell_defs = cell_00_def cell_01_def cell_02_def cell_03_def cell_04_def cell_05_def
  cell_06_def cell_07_def cell_08_def cell_09_def cell_10_def cell_11_def cell_12_def cell_13_def
  cell_14_def cell_15_def cell_16_def cell_17_def cell_18_def cell_19_def cell_20_def cell_21_def
  cell_22_def cell_23_def cell_24_def cell_25_def cell_26_def

lemmas lib_defs = medspacy_library_def medspacy_load_def get_pipe_def pipe_names_def
  included_def builtin_component_def default_stage_names_def no_args_def

lemmas run_defs = run_def notebook_def exec_cells_def exec_cell_def init_def

subsection \<open>Running cells\<close>

lemma exec_cells_Nil: "exec_cells L [] s = s"
  by (simp add: exec_cells_def)

lemma exec_cells_Cons: "exec_cells L (c # cs) s = exec_cells L cs (exec_cell L c s)"
  by (simp add: exec_cells_def)

lemma exec_cells_append: "exec_cells L (xs @ ys) s = exec_cells L ys (exec_cells L xs s)"
  by (simp add: exec_cells_def)

lemma exec_cell_raised: "raised s \<noteq> None \<Longrightarrow> exec_cell L c s = s"
  by (simp add: exec_cell_def)

lemma exec_cells_raised: "raised s \<noteq> None \<Longrightarrow> exec_cells L cs s = s"
  by (induction cs) (simp_all add: exec_cells_Nil exec_cells_Cons exec_cell_raised)

lemma exec_cells_completed: "raised (exec_cells L cs s) = None \<Longrightarrow> raised s = None"
  using exec_cells_raised [of s L cs] by (cases "raised s") auto

lemma run_from: "n \<le> length notebook \<Longrightarrow> run L fs = exec_cells L (drop n notebook) (run_to n L fs)"
  by (simp add: run_def run_to_def exec_cells_append [symmetric])

lemma length_notebook: "length notebook = 27"
  by (simp add: notebook_def)

lemma file_cells: "drop 25 notebook = [cell_25, cell_26]"
  by (simp add: notebook_def)

lemma run_file_cells: "run L fs = exec_cell L cell_26 (exec_cell L cell_25 (run_to 25 L fs))"
  using run_from [of 25 L fs] by (simp add: length_notebook file_cells exec_cells_Cons exec_cells_Nil)

lemma exec_cell_25: "exec_cell L cell_25 s = (if raised s \<noteq> None then s else code_16 s)"
  by (simp add: exec_cell_def cell_25_def code_def)

lemma exec_cell_26: "exec_cell L cell_26 s = (if raised s \<noteq> None then s else code_17 s)"
  by (simp add: exec_cell_def cell_26_def code_def)

lemma code_16_keeps:
  "displayed (code_16 s) = displayed s" "names (code_16 s) = names s"
  "v_nlp (code_16 s) = v_nlp s" "v_context (code_16 s) = v_context s"
  "v_sectionizer (code_16 s) = v_sectionizer s"
  "v_nlp_sectionizer_only (code_16 s) = v_nlp_sectionizer_only s"
  "v_nlp_no_pos_dep (code_16 s) = v_nlp_no_pos_dep s" "v_en (code_16 s) = v_en s"
  "stdout (code_16 s) = stdout s" "files (code_16 s) = files s"
  "open_files (code_16 s) = open_files s"
  by (simp_all add: code_16_def stmt_defs Let_def split: option.splits sum.splits)

lemma code_17_keeps:
  "displayed (code_17 s) = displayed s" "names (code_17 s) = names s"
  "v_nlp (code_17 s) = v_nlp s" "v_context (code_17 s) = v_context s"
  "v_sectionizer (code_17 s) = v_sectionizer s"
  "v_nlp_sectionizer_only (code_17 s) = v_nlp_sectionizer_only s"
  "v_nlp_no_pos_dep (code_17 s) = v_nlp_no_pos_dep s" "v_en (code_17 s) = v_en s"
  "v_text (code_17 s) = v_text s" "files (code_17 s) = files s"
  "open_files (code_17 s) = open_files s"
  by (simp_all add: code_17_def stmt_defs split: option.splits)

lemma run_displayed: "displayed (run L fs) = displayed (run_to 25 L fs)"
  by (simp add: run_file_cells exec_cell_25 exec_cell_26 code_16_keeps code_17_keeps)

subsection \<open>The code cells, one by one\<close>

lemma count_cases:
  fixes k :: nat
  obtains "k = 1" | "k = 2" | "k = 3" | "k = 4" | "k = 5" | "k = 6" | "k = 7" | "k = 8"
    | "k = 9" | "k = 10" | "k = 11" | "k = 12" | "k = 13" | "k = 14" | "k = 15" | "k = 16"
    | "k = 17" | "k = 0 \<or> 17 < k"
  by atomize_elim arith

lemma code_other: "k = 0 \<or> 17 < k \<Longrightarrow> code L k = id"
  by (auto simp add: code_def)

lemma ops_other: "k = 0 \<or> 17 < k \<Longrightarrow> ops k = []"
  by (auto simp add: ops_def)

lemma code_events:
  "raised (code L k s) = None \<Longrightarrow> events (code L k s) = events s @ ops k"
  by (cases k rule: count_cases)
    (simp_all add: code_other ops_other,
     simp_all add: code_def ops_def cell_code_defs stmt_defs Let_def
       split: option.splits sum.splits if_splits)

lemma code_keeps_files:
  "k \<noteq> 16 \<Longrightarrow> k \<noteq> 17 \<Longrightarrow>
   files (code L k s) = files s \<and> open_files (code L k s) = open_files s \<and>
   v_text (code L k s) = v_text s \<and> stdout (code L k s) = stdout s \<and>
   file_ops (events (code L k s)) = file_ops (events s)"
  by (cases k rule: count_cases)
    (simp_all add: code_other,
     simp_all add: code_def cell_code_defs stmt_defs file_ops_def Let_def
       split: option.splits sum.splits)

lemma code_keeps_nlp: "k \<noteq> 2 \<Longrightarrow> v_nlp (code L k s) = v_nlp s"
  by (cases k rule: count_cases)
    (simp_all add: code_other,
     simp_all add: code_def cell_code_defs stmt_defs Let_def split: option.splits sum.splits)

lemma code_keeps_nlp_sectionizer_only:
  "k \<noteq> 8 \<Longrightarrow> v_nlp_sectionizer_only (code L k s) = v_nlp_sectionizer_only s"
  by (cases k rule: count_cases)
    (simp_all add: code_other,
     simp_all add: code_def cell_code_defs stmt_defs Let_def split: option.splits sum.splits)

lemma code_keeps_nlp_no_pos_dep:
  "k \<noteq> 9 \<Longrightarrow> v_nlp_no_pos_dep (code L k s) = v_nlp_no_pos_dep s"
  by (cases k rule: count_cases)
    (simp_all add: code_other,
     simp_all add: code_def cell_code_defs stmt_defs Let_def split: option.splits sum.splits)

lemma code_keeps_en: "k \<noteq> 11 \<Longrightarrow> k \<noteq> 14 \<Longrightarrow> v_en (code L k s) = v_en s"
  by (cases k rule: count_cases)
    (simp_all add: code_other,
     simp_all add: code_def cell_code_defs stmt_defs Let_def split: option.splits sum.splits)

subsection \<open>Lists of cells\<close>

lemma exec_cell_events:
  "raised (exec_cell L c s) = None \<Longrightarrow> events (exec_cell L c s) = events s @ cell_ops c"
  by (cases c) (auto simp add: exec_cell_def code_events split: option.splits if_splits)

lemma exec_cells_events:
  "raised (exec_cells L cs s) = None \<Longrightarrow>
   events (exec_cells L cs s) = events s @ concat (map cell_ops cs)"
proof (induction cs arbitrary: s)
  case Nil
  then show ?case by (simp add: exec_cells_Nil)
next
  case (Cons c cs)
  from Cons.prems have r: "raised (exec_cells L cs (exec_cell L c s)) = None"
    by (simp add: exec_cells_Cons)
  then have "raised (exec_cell L c s) = None"
    by (rule exec_cells_completed)
  then have "events (exec_cell L c s) = events s @ cell_ops c"
    by (rule exec_cell_events)
  with Cons.IH [OF r] show ?case
    by (simp add: exec_cells_Cons)
qed

text \<open>
  A variable that only the cells with execution counts \<open>k0\<close> and \<open>k1\<close> change is
  kept by a list of other cells.
\<close>

lemma exec_cells_keep:
  assumes frame: "\<And>k s. k \<noteq> k0 \<Longrightarrow> k \<noteq> k1 \<Longrightarrow> sel (code L k s) = sel s"
    and others: "\<forall>c \<in> set cs. source_of k0 [c] = None \<and> source_of k1 [c] = None"
  shows "sel (exec_cells L cs s) = sel s"
  using others
proof (induction cs arbitrary: s)
  case Nil
  show ?case by (simp add: exec_cells_Nil)
next
  case (Cons c cs)
  have "sel (exec_cell L c s) = sel s"
  proof (cases c)
    case (Markdown ls)
    then show ?thesis by (simp add: exec_cell_def)
  next
    case (Code ec src outs)
    show ?thesis
    proof (cases ec)
      case None
      with Code show ?thesis by (simp add: exec_cell_def)
    next
      case (Some k)
      with Code Cons.prems have "k \<noteq> k0" "k \<noteq> k1" by (auto split: if_splits)
      with Code Some show ?thesis by (simp add: exec_cell_def frame)
    qed
  qed
  with Cons show ?case by (simp add: exec_cells_Cons)
qed

lemma before_unbound:
  assumes "\<And>k s. k \<noteq> k0 \<Longrightarrow> sel (code L k s) = sel s"
  shows "sel (before k0 L fs) = sel (init fs)"
  unfolding before_def cells_before_def
  by (rule exec_cells_keep [where ?k0.0 = k0 and ?k1.0 = k0])
    (use assms in \<open>auto dest: set_takeWhileD\<close>)

lemma exec_cell_keeps_files:
  assumes "source_of 16 [c] = None" "source_of 17 [c] = None"
  shows "files (exec_cell L c s) = files s \<and> open_files (exec_cell L c s) = open_files s \<and>
   v_text (exec_cell L c s) = v_text s \<and> stdout (exec_cell L c s) = stdout s \<and>
   file_ops (events (exec_cell L c s)) = file_ops (events s)"
proof (cases c)
  case (Markdown ls)
  then show ?thesis by (simp add: exec_cell_def)
next
  case (Code ec src outs)
  show ?thesis
  proof (cases ec)
    case None
    with Code show ?thesis by (simp add: exec_cell_def)
  next
    case (Some k)
    with Code assms have "k \<noteq> 16" "k \<noteq> 17" by (auto split: if_splits)
    then show ?thesis
      using code_keeps_files [of k L s] Code Some by (simp add: exec_cell_def)
  qed
qed

lemma exec_cells_keep_files:
  "\<forall>c \<in> set cs. source_of 16 [c] = None \<and> source_of 17 [c] = None \<Longrightarrow>
   files (exec_cells L cs s) = files s \<and> open_files (exec_cells L cs s) = open_files s \<and>
   v_text (exec_cells L cs s) = v_text s \<and> stdout (exec_cells L cs s) = stdout s \<and>
   file_ops (events (exec_cells L cs s)) = file_ops (events s)"
proof (induction cs arbitrary: s)
  case Nil
  then show ?case by (simp add: exec_cells_Nil)
next
  case (Cons c cs)
  then show ?case
    using exec_cell_keeps_files [of c L s] by (simp add: exec_cells_Cons)
qed

subsection \<open>The run up to the file read, and from it on\<close>

lemma run_to_25_files:
  "files (run_to 25 L fs) = fs" "open_files (run_to 25 L fs) = []"
  "v_text (run_to 25 L fs) = None" "stdout (run_to 25 L fs) = []"
  "file_ops (events (run_to 25 L fs)) = []"
proof -
  have "\<forall>c \<in> set (take 25 notebook). source_of 16 [c] = None \<and> source_of 17 [c] = None"
    by (simp add: notebook_def cell_defs)
  from exec_cells_keep_files [OF this, of L "init fs"]
  show "files (run_to 25 L fs) = fs" "open_files (run_to 25 L fs) = []"
    "v_text (run_to 25 L fs) = None" "stdout (run_to 25 L fs) = []"
    "file_ops (events (run_to 25 L fs)) = []"
    by (simp_all add: run_to_def init_def file_ops_def)
qed

text \<open>
  The run from the file cell on, by cases: an exception before it, no file, a read that
  raises, a read that returns.
\<close>

lemma file_cells_cases:
  assumes "files s = fs" "open_files s = []" "stdout s = []"
  shows "exec_cell L cell_26 (exec_cell L cell_25 s) =
     (if raised s \<noteq> None then s
      else case fs ''./discharge_summary.txt'' of
        None \<Rightarrow> s\<lparr>raised := Some (FileNotFoundError ''./discharge_summary.txt'')\<rparr>
      | Some (Inl e) \<Rightarrow>
          s\<lparr>events := events s @ [Open ''./discharge_summary.txt'',
               Read ''./discharge_summary.txt'', Close ''./discharge_summary.txt''],
            raised := Some e\<rparr>
      | Some (Inr c) \<Rightarrow>
          s\<lparr>events := events s @ [Open ''./discharge_summary.txt'',
               Read ''./discharge_summary.txt'', Close ''./discharge_summary.txt'', Print],
            v_text := Some c, stdout := take 500 c @ [CHR 0x0A]\<rparr>)"
  using assms
  by (auto simp add: exec_cell_25 exec_cell_26 code_16_def code_17_def stmt_defs Let_def
      split: option.splits sum.splits)

lemma run_cases:
  "run L fs =
     (if raised (run_to 25 L fs) \<noteq> None then run_to 25 L fs
      else case fs ''./discharge_summary.txt'' of
        None \<Rightarrow> (run_to 25 L fs)\<lparr>raised := Some (FileNotFoundError ''./discharge_summary.txt'')\<rparr>
      | Some (Inl e) \<Rightarrow>
          (run_to 25 L fs)
            \<lparr>events := events (run_to 25 L fs) @ [Open ''./discharge_summary.txt'',
               Read ''./discharge_summary.txt'', Close ''./discharge_summary.txt''],
             raised := Some e\<rparr>
      | Some (Inr c) \<Rightarrow>
          (run_to 25 L fs)
            \<lparr>events := events (run_to 25 L fs) @ [Open ''./discharge_summary.txt'',
               Read ''./discharge_summary.txt'', Close ''./discharge_summary.txt'', Print],
             v_text := Some c, stdout := take 500 c @ [CHR 0x0A]\<rparr>)"
  unfolding run_file_cells
  by (rule file_cells_cases) (rule run_to_25_files)+

lemma run_events:
  assumes "raised (run L fs) = None"
  shows "events (run L fs) =
     [Import ''medspacy'', Call ''medspacy.load'', GetAttr ''pipe_names'',
      Call ''get_pipe'', GetAttr ''item_data'', Call ''get_pipe'', GetAttr ''patterns'',
      Call ''medspacy.load'', GetAttr ''pipe_names'', Call ''medspacy.load'',
      GetAttr ''pipe_names'', Import ''spacy'', Call ''spacy.load'',
      Import ''medspacy.context'', Call ''ConTextComponent'', Call ''add_pipe'',
      GetAttr ''pipe_names'', Open ''./discharge_summary.txt'',
      Read ''./discharge_summary.txt'', Close ''./discharge_summary.txt'', Print]"
proof -
  from assms have "events (run L fs) = concat (map cell_ops notebook)"
    by (simp add: run_def exec_cells_events) (simp add: init_def)
  then show ?thesis
    by (simp add: notebook_def cell_defs ops_def)
qed

lemma run_completed:
  assumes "raised (run L fs) = None"
  shows "raised (run_to 25 L fs) = None"
    and "\<exists>c. fs ''./discharge_summary.txt'' = Some (Inr c)"
proof -
  show r: "raised (run_to 25 L fs) = None"
    using assms run_from [of 25 L fs] exec_cells_completed [of L "drop 25 notebook" "run_to 25 L fs"]
    by (simp add: length_notebook)
  show "\<exists>c. fs ''./discharge_summary.txt'' = Some (Inr c)"
    using assms r by (subst (asm) run_cases) (auto split: option.splits sum.splits)
qed

lemma take_26: "take 26 notebook = take 25 notebook @ [cell_25]"
  by (simp add: notebook_def)

lemma run_to_26_cases:
  "run_to 26 L fs =
     (if raised (run_to 25 L fs) \<noteq> None then run_to 25 L fs
      else case fs ''./discharge_summary.txt'' of
        None \<Rightarrow> (run_to 25 L fs)\<lparr>raised := Some (FileNotFoundError ''./discharge_summary.txt'')\<rparr>
      | Some (Inl e) \<Rightarrow>
          (run_to 25 L fs)
            \<lparr>events := events (run_to 25 L fs) @ [Open ''./discharge_summary.txt'',
               Read ''./discharge_summary.txt'', Close ''./discharge_summary.txt''],
             raised := Some e\<rparr>
      | Some (Inr c) \<Rightarrow>
          (run_to 25 L fs)
            \<lparr>events := events (run_to 25 L fs) @ [Open ''./discharge_summary.txt'',
               Read ''./discharge_summary.txt'', Close ''./discharge_summary.txt''],
             v_text := Some c\<rparr>)"
proof -
  have "run_to 26 L fs = exec_cell L cell_25 (run_to 25 L fs)"
    by (simp add: run_to_def take_26 exec_cells_append exec_cells_Cons exec_cells_Nil)
  then show ?thesis
    using run_to_25_files [of L fs]
    by (auto simp add: exec_cell_25 code_16_def stmt_defs Let_def split: option.splits sum.splits)
qed

lemma run_to_open_files: "open_files (run_to n L fs) = []"
proof -
  consider "n \<le> 25" | "n = 26" | "27 \<le> n" by linarith
  then show ?thesis
  proof cases
    case 1
    have "\<forall>c \<in> set (take 25 notebook). source_of 16 [c] = None \<and> source_of 17 [c] = None"
      by (simp add: notebook_def cell_defs)
    moreover have "set (take n notebook) \<subseteq> set (take 25 notebook)"
      using 1 by (rule set_take_subset_set_take)
    ultimately have "\<forall>c \<in> set (take n notebook). source_of 16 [c] = None \<and> source_of 17 [c] = None"
      by blast
    from exec_cells_keep_files [OF this, of L "init fs"] show ?thesis
      by (simp add: run_to_def init_def)
  next
    case 2
    then show ?thesis
      using run_to_25_files [of L fs]
      by (simp add: run_to_26_cases split: option.splits sum.splits)
  next
    case 3
    then have "run_to n L fs = run L fs"
      by (simp add: run_to_def run_def length_notebook)
    then show ?thesis
      using run_to_25_files [of L fs]
      by (simp add: run_cases split: option.splits sum.splits)
  qed
qed

lemma run_file_ops:
  "file_ops (events (run L fs)) =
     (if raised (run_to 25 L fs) = None \<and> fs ''./discharge_summary.txt'' \<noteq> None
      then [Open ''./discharge_summary.txt'', Read ''./discharge_summary.txt'',
            Close ''./discharge_summary.txt'']
      else [])"
  using run_to_25_files [of L fs]
  by (auto simp add: run_cases file_ops_def split: option.splits sum.splits)

text \<open>A read that raises: the exception stays raised, and the handle is closed all the same.\<close>

lemma read_raises_file_closed:
  assumes "raised (run_to 25 L fs) = None" "fs ''./discharge_summary.txt'' = Some (Inl e)"
  shows "raised (run L fs) = Some e \<and> open_files (run L fs) = [] \<and>
    file_ops (events (run L fs)) =
      [Open ''./discharge_summary.txt'', Read ''./discharge_summary.txt'',
       Close ''./discharge_summary.txt''] \<and>
    v_text (run L fs) = None \<and> stdout (run L fs) = []"
  using assms run_to_25_files [of L fs] by (simp add: run_cases file_ops_def)


lemma cells_before_13: "cells_before 13 = take 21 notebook"
  by (simp add: cells_before_def notebook_def cell_defs)

lemma cells_before_11: "cells_before 11 = take 19 notebook"
  by (simp add: cells_before_def notebook_def cell_defs)

lemma before_unbound_vars:
  "v_nlp (before 2 L fs) = None"
  "v_nlp_sectionizer_only (before 8 L fs) = None"
  "v_nlp_no_pos_dep (before 9 L fs) = None"
  "v_en (before 11 L fs) = None"
proof -
  show "v_nlp (before 2 L fs) = None"
    using before_unbound [where sel = v_nlp and ?k0.0 = 2 and L = L and fs = fs]
    by (simp add: code_keeps_nlp init_def)
  show "v_nlp_sectionizer_only (before 8 L fs) = None"
    using before_unbound [where sel = v_nlp_sectionizer_only and ?k0.0 = 8 and L = L and fs = fs]
    by (simp add: code_keeps_nlp_sectionizer_only init_def)
  show "v_nlp_no_pos_dep (before 9 L fs) = None"
    using before_unbound [where sel = v_nlp_no_pos_dep and ?k0.0 = 9 and L = L and fs = fs]
    by (simp add: code_keeps_nlp_no_pos_dep init_def)
  have "\<forall>c \<in> set (take 19 notebook). source_of 11 [c] = None \<and> source_of 14 [c] = None"
    by (simp add: notebook_def cell_defs)
  from exec_cells_keep [where sel = v_en and ?k0.0 = 11 and ?k1.0 = 14 and L = L, OF _ this]
  show "v_en (before 11 L fs) = None"
    by (simp add: before_def cells_before_11 code_keeps_en init_def)
qed

subsection \<open>Results displayed\<close>

text \<open>A cell only adds to the results displayed, so a result once displayed stays.\<close>

lemma code_displayed: "\<exists>more. displayed (code L k s) = displayed s @ more"
  by (cases k rule: count_cases)
    (simp_all add: code_other,
     simp_all add: code_def cell_code_defs stmt_defs Let_def split: option.splits sum.splits)

lemma exec_cells_displayed: "\<exists>more. displayed (exec_cells L cs s) = displayed s @ more"
proof (induction cs arbitrary: s)
  case Nil
  show ?case by (simp add: exec_cells_Nil)
next
  case (Cons c cs)
  have "\<exists>more. displayed (exec_cell L c s) = displayed s @ more"
    using code_displayed [of L _ s]
    by (cases c) (auto simp add: exec_cell_def split: option.splits)
  then obtain m1 where m1: "displayed (exec_cell L c s) = displayed s @ m1" ..
  from Cons [of "exec_cell L c s"] obtain m2
    where "displayed (exec_cells L cs (exec_cell L c s)) = displayed (exec_cell L c s) @ m2" ..
  with m1 show ?case by (simp add: exec_cells_Cons)
qed

lemma displayed_stays:
  assumes "n \<le> length notebook" "map_of (displayed (run_to n L fs)) k = Some v"
  shows "map_of (displayed (run L fs)) k = Some v"
proof -
  obtain more where "displayed (run L fs) = displayed (run_to n L fs) @ more"
    using exec_cells_displayed [of L "drop n notebook" "run_to n L fs"] run_from [OF assms(1), of L fs]
    by auto
  with assms(2) show ?thesis by (simp add: map_add_Some_iff)
qed

subsection \<open>The run with the modelled library\<close>

text \<open>
  The first nine code cells call only the factory and read the pipelines it gives, so
  what they display does not depend on the three functions that are parameters.
\<close>

lemma model_run_to_16:
  "displayed (run_to 16 (medspacy_library items pats X) fs) =
     [(3, ShownNames [''tagger'', ''parser'', ''target_matcher'', ''sectionizer'',
          ''context'', ''postprocessor'']),
      (5, ShownItems (take 10 items)), (7, ShownPatterns (take 10 pats)),
      (8, ShownNames [''sectionizer'']),
      (9, ShownNames [''target_matcher'', ''sectionizer'', ''context'', ''postprocessor''])]"
  "raised (run_to 16 (medspacy_library items pats X) fs) = None"
  by (simp_all add: run_to_def run_defs cell_defs code_defs stmt_defs lib_defs)

lemma model_displayed:
  "map_of (displayed (run (medspacy_library items pats X) fs)) 3 =
     Some (ShownNames [''tagger'', ''parser'', ''target_matcher'', ''sectionizer'',
          ''context'', ''postprocessor''])"
  "map_of (displayed (run (medspacy_library items pats X) fs)) 8 =
     Some (ShownNames [''sectionizer''])"
  "map_of (displayed (run (medspacy_library items pats X) fs)) 9 =
     Some (ShownNames [''target_matcher'', ''sectionizer'', ''context'', ''postprocessor''])"
  by (rule displayed_stays [where n = 16], simp add: length_notebook, simp add: model_run_to_16)+

lemma included_only:
  "included (no_args\<lparr>disable := Some d\<rparr>) = (\<lambda>n. n \<notin> set d)"
  "included (no_args\<lparr>enable := Some e\<rparr>) = (\<lambda>n. n \<in> set e)"
  by (simp_all add: fun_eq_iff included_def no_args_def)

lemma medspacy_load_disable:
  "map_sum id pipe_names (medspacy_load items pats (no_args\<lparr>disable := Some d\<rparr>)) =
     Inr (filter (\<lambda>n. n \<notin> set d) default_stage_names)"
  by (simp add: medspacy_load_def pipe_names_def included_only builtin_component_def comp_def)

lemma medspacy_load_enable:
  "map_sum id pipe_names (medspacy_load items pats (no_args\<lparr>enable := Some e\<rparr>)) =
     Inr (filter (\<lambda>n. n \<in> set e) default_stage_names)"
  by (simp add: medspacy_load_def pipe_names_def included_only builtin_component_def comp_def)

subsection \<open>The sample run\<close>

lemma sample_run_to_25:
  "run_to 25 sample_library fs =
     \<lparr>names = [''ConTextComponent'', ''spacy'', ''medspacy''],
      v_nlp = Some \<lparr>base_model = ''en_core_web_sm'',
        stages = [Component ''tagger'' [] [], Component ''parser'' [] [],
          Component ''target_matcher'' [] [], Component ''sectionizer'' [] [],
          Component ''context'' [] [], Component ''postprocessor'' [] []]\<rparr>,
      v_context = Some (Component ''context'' [] []),
      v_sectionizer = Some (Component ''sectionizer'' [] []),
      v_nlp_sectionizer_only = Some \<lparr>base_model = ''en_core_web_sm'',
        stages = [Component ''sectionizer'' [] []]\<rparr>,
      v_nlp_no_pos_dep = Some \<lparr>base_model = ''en_core_web_sm'',
        stages = [Component ''target_matcher'' [] [], Component ''sectionizer'' [] [],
          Component ''context'' [] [], Component ''postprocessor'' [] []]\<rparr>,
      v_en = Some \<lparr>base_model = ''en_core_web_sm'',
        stages = [Component ''tagger'' [] [], Component ''parser'' [] [],
          Component ''ner'' [] [], Component ''context'' [] []]\<rparr>,
      v_text = None, files = fs, open_files = [],
      events = [Import ''medspacy'', Call ''medspacy.load'', GetAttr ''pipe_names'',
        Call ''get_pipe'', GetAttr ''item_data'', Call ''get_pipe'', GetAttr ''patterns'',
        Call ''medspacy.load'', GetAttr ''pipe_names'', Call ''medspacy.load'',
        GetAttr ''pipe_names'', Import ''spacy'', Call ''spacy.load'',
        Import ''medspacy.context'', Call ''ConTextComponent'', Call ''add_pipe'',
        GetAttr ''pipe_names''],
      displayed = [(3, ShownNames [''tagger'', ''parser'', ''target_matcher'', ''sectionizer'',
          ''context'', ''postprocessor'']),
        (5, ShownItems []), (7, ShownPatterns []),
        (8, ShownNames [''sectionizer'']),
        (9, ShownNames [''target_matcher'', ''sectionizer'', ''context'', ''postprocessor'']),
        (15, ShownNames [''tagger'', ''parser'', ''ner'', ''context''])],
      stdout = [], raised = None\<rparr>"
  by (simp add: run_to_def run_defs cell_defs code_defs stmt_defs lib_defs sample_library_def
      sample_outside_def)

lemma recorded_stream:
  "concat output_26 = sample_text @ [CHR 0x0A]" "length sample_text = 500"
  by (simp_all add: sample_text_def output_26_def)

lemma sample_run:
  "raised (run sample_library sample_files) = None"
  "v_text (run sample_library sample_files) = Some sample_text"
  "stdout (run sample_library sample_files) = concat output_26"
  by (simp_all add: run_cases sample_run_to_25 sample_files_def recorded_stream)

lemma sample_events:
  "events (run sample_library sample_files) =
     [Import ''medspacy'', Call ''medspacy.load'', GetAttr ''pipe_names'',
      Call ''get_pipe'', GetAttr ''item_data'', Call ''get_pipe'', GetAttr ''patterns'',
      Call ''medspacy.load'', GetAttr ''pipe_names'', Call ''medspacy.load'',
      GetAttr ''pipe_names'', Import ''spacy'', Call ''spacy.load'',
      Import ''medspacy.context'', Call ''ConTextComponent'', Call ''add_pipe'',
      GetAttr ''pipe_names'', Open ''./discharge_summary.txt'',
      Read ''./discharge_summary.txt'', Close ''./discharge_summary.txt'', Print]"
  by (rule run_events) (rule sample_run)


subsection \<open>What the notebook file records\<close>

text \<open>The source of each code cell, by execution count, as the cells above embed it.\<close>

lemma code_cell_sources:
  \<open>source_of 1 notebook = Some [''import medspacy'']\<close>
  \<open>source_of 2 notebook = Some [''nlp = medspacy.load()'']\<close>
  \<open>source_of 3 notebook = Some [''nlp.pipe_names'']\<close>
  \<open>source_of 4 notebook = Some [''context = nlp.get_pipe("context")'']\<close>
  \<open>source_of 5 notebook = Some [''context.item_data[:10]'']\<close>
  \<open>source_of 6 notebook = Some [''sectionizer = nlp.get_pipe("sectionizer")'']\<close>
  \<open>source_of 7 notebook = Some [''sectionizer.patterns[:10]'']\<close>
  \<open>source_of 8 notebook =
     Some [''nlp_sectionizer_only = medspacy.load(enable=["sectionizer"])\<newline>'',
           ''nlp_sectionizer_only.pipe_names'']\<close>
  \<open>source_of 9 notebook =
     Some [''nlp_no_pos_dep = medspacy.load(disable=["tagger", "parser"])\<newline>'',
           ''nlp_no_pos_dep.pipe_names'']\<close>
  \<open>source_of 10 notebook = Some [''import spacy'']\<close>
  \<open>source_of 11 notebook = Some [''en = spacy.load("en_core_web_sm")'']\<close>
  \<open>source_of 12 notebook = Some [''from medspacy.context import ConTextComponent'']\<close>
  \<open>source_of 13 notebook = Some [''context = ConTextComponent(nlp)'']\<close>
  \<open>source_of 14 notebook = Some [''en.add_pipe(context)'']\<close>
  \<open>source_of 15 notebook = Some [''en.pipe_names'']\<close>
  \<open>source_of 16 notebook =
     Some [''with open("./discharge_summary.txt") as f:\<newline>'', ''    text = f.read()'']\<close>
  \<open>source_of 17 notebook = Some [''print(text[:500])'']\<close>
  \<open>source_of 18 notebook = None\<close>
  by (simp_all add: notebook_def cell_defs source_03_def source_04_def source_05_def
      source_07_def source_08_def source_09_def source_10_def source_14_def source_15_def
      source_16_def source_18_def source_19_def source_20_def source_21_def source_22_def
      source_23_def source_25_def source_26_def)

text \<open>
  The ten section patterns and the ten rule items that the notebook file records (the
  previews \<^verbatim>\<open>sectionizer.patterns[:10]\<close> and \<^verbatim>\<open>context.item_data[:10]\<close>) have the
  shapes above. The file records no other element of either list.
\<close>

lemma recorded_patterns_shape:
  "length (recorded_elements 7) = 10"
  "list_all is_section_pattern (recorded_elements 7)"
  by code_simp+

lemma recorded_items_shape:
  "length (recorded_elements 5) = 10"
  "list_all is_rule_item (recorded_elements 5)"
  by code_simp+

text \<open>
  The lists of names that the notebook file records, for the four cells that display
  \<^verbatim>\<open>pipe_names\<close>.
\<close>

lemma recorded_pipe_names:
  "recorded_names 3 =
     Some [''tagger'', ''parser'', ''target_matcher'', ''sectionizer'', ''context'',
          ''postprocessor'']"
  "recorded_names 8 = Some [''sectionizer'']"
  "recorded_names 9 = Some [''target_matcher'', ''sectionizer'', ''context'', ''postprocessor'']"
  "recorded_names 15 = Some [''tagger'', ''parser'', ''ner'', ''context'']"
  by (simp_all add: recorded_names_def notebook_def cell_defs output_05_def output_14_def
      output_15_def output_23_def read_str_list_def)

subsection \<open>The binding of arguments\<close>

lemma bind_keywords_keys:
  "set (map fst kws) \<subseteq> set ps \<Longrightarrow> distinct (map fst kws) \<Longrightarrow>
   set (map fst kws) \<inter> set (map fst b) = {} \<Longrightarrow>
   bind_keywords ps b (keyword_arguments kws) = Inr (b @ kws)"
proof (induction kws arbitrary: b)
  case Nil
  show ?case by (simp add: keyword_arguments_def)
next
  case (Cons k kws)
  obtain n v where k: "k = (n, v)" by (cases k)
  from Cons.prems have n: "n \<in> set ps" "n \<notin> set (map fst b)"
    by (auto simp add: k)
  from Cons.prems have "set (map fst kws) \<subseteq> set ps" "distinct (map fst kws)"
    "set (map fst kws) \<inter> set (map fst (b @ [(n, v)])) = {}"
    by (auto simp add: k)
  then have "bind_keywords ps (b @ [(n, v)]) (keyword_arguments kws) = Inr ((b @ [(n, v)]) @ kws)"
    by (rule Cons.IH)
  with n show ?case
    by (simp add: k keyword_arguments_def)
qed

lemma bind_keywords_accepted:
  "bind_keywords ps b as = Inr b' \<Longrightarrow>
   \<exists>kws. as = keyword_arguments kws \<and> set (map fst kws) \<subseteq> set ps \<and>
     distinct (map fst kws) \<and> set (map fst kws) \<inter> set (map fst b) = {} \<and> b' = b @ kws"
proof (induction ps b as rule: bind_keywords.induct)
  case (1 ps b)
  then show ?case by (simp add: keyword_arguments_def)
next
  case (2 ps b v as)
  then show ?case by simp
next
  case (3 ps b n v as)
  from "3.prems" have n: "n \<in> set ps" "n \<notin> set (map fst b)"
    and r: "bind_keywords ps (b @ [(n, v)]) as = Inr b'"
    by (simp_all split: if_splits)
  from "3.IH" [OF _ _ r] n obtain kws where kws: "as = keyword_arguments kws"
    "set (map fst kws) \<subseteq> set ps" "distinct (map fst kws)"
    "set (map fst kws) \<inter> set (map fst (b @ [(n, v)])) = {}" "b' = (b @ [(n, v)]) @ kws"
    by auto
  have "Key n v # as = keyword_arguments ((n, v) # kws)"
    by (simp add: kws(1) keyword_arguments_def)
  moreover have "set (map fst ((n, v) # kws)) \<subseteq> set ps"
    using kws(2) n(1) by simp
  moreover have "distinct (map fst ((n, v) # kws))"
    using kws(3,4) by auto
  moreover have "set (map fst ((n, v) # kws)) \<inter> set (map fst b) = {}"
    using kws(4) n(2) by auto
  moreover have "b' = b @ (n, v) # kws"
    using kws(5) by simp
  ultimately show ?case by blast
qed

lemma value_of_Pos: "map (value_of \<circ> Pos) vs = vs" "map value_of (map Pos vs) = vs"
  by (induction vs) simp_all

lemma positional_prefix: "\<exists>vs. takeWhile is_positional as = map Pos vs"
proof (induction as)
  case Nil
  show ?case by simp
next
  case (Cons x as)
  then obtain vs where vs: "takeWhile is_positional as = map Pos vs" by blast
  show ?case
  proof (cases x)
    case (Pos v)
    then have "takeWhile is_positional (x # as) = map Pos (v # vs)"
      by (simp add: vs)
    then show ?thesis by blast
  next
    case (Key n v)
    then have "takeWhile is_positional (x # as) = map Pos []" by simp
    then show ?thesis by blast
  qed
qed

lemma no_positional_keywords: "\<not> list_ex is_positional (keyword_arguments kws)"
  by (induction kws) (auto simp add: keyword_arguments_def)

lemma takeWhile_positional:
  "takeWhile is_positional (map Pos vs @ keyword_arguments kws) = map Pos vs"
  by (cases kws) (auto simp add: keyword_arguments_def takeWhile_append)

lemma dropWhile_positional:
  "dropWhile is_positional (map Pos vs @ keyword_arguments kws) = keyword_arguments kws"
  by (cases kws) (auto simp add: keyword_arguments_def dropWhile_append)

text \<open>
  What is accepted, and what it binds: positional arguments, no more than parameters,
  then keyword arguments that name parameters, none twice and none that a positional
  argument has bound; the positional arguments bind the first parameters.
\<close>

lemma bind_accepts:
  assumes "length vs \<le> length ps" "set (map fst kws) \<subseteq> set ps" "distinct (map fst kws)"
    "set (map fst kws) \<inter> set (take (length vs) ps) = {}"
  shows "bind ps (map Pos vs @ keyword_arguments kws) = Inr (zip ps vs @ kws)"
proof -
  have "map fst (zip ps vs) = take (length vs) ps"
    using assms(1) by (simp add: map_fst_zip_take min_def)
  with assms have "bind_keywords ps (zip ps vs) (keyword_arguments kws) = Inr (zip ps vs @ kws)"
    by (simp add: bind_keywords_keys)
  with assms(1) show ?thesis
    by (simp add: bind_def Let_def takeWhile_positional dropWhile_positional
        no_positional_keywords value_of_Pos)
qed

lemma bind_accepted:
  assumes "bind ps as = Inr b"
  shows "\<exists>vs kws. as = map Pos vs @ keyword_arguments kws \<and> length vs \<le> length ps \<and>
     set (map fst kws) \<subseteq> set ps \<and> distinct (map fst kws) \<and>
     set (map fst kws) \<inter> set (take (length vs) ps) = {} \<and> b = zip ps vs @ kws"
proof -
  obtain vs where vs: "takeWhile is_positional as = map Pos vs"
    using positional_prefix by blast
  from assms have len: "length vs \<le> length ps"
    and r: "bind_keywords ps (zip ps vs) (dropWhile is_positional as) = Inr b"
    by (simp_all add: bind_def Let_def vs value_of_Pos split: if_splits)
  from bind_keywords_accepted [OF r] obtain kws where
    kws: "dropWhile is_positional as = keyword_arguments kws" "set (map fst kws) \<subseteq> set ps"
      "distinct (map fst kws)" "set (map fst kws) \<inter> set (map fst (zip ps vs)) = {}"
      "b = zip ps vs @ kws"
    by blast
  have "as = takeWhile is_positional as @ dropWhile is_positional as" by simp
  then have "as = map Pos vs @ keyword_arguments kws"
    by (simp only: vs kws(1))
  moreover have "map fst (zip ps vs) = take (length vs) ps"
    using len by (simp add: map_fst_zip_take min_def)
  ultimately show ?thesis
    using len kws by auto
qed

text \<open>A signature of \<^verbatim>\<open>medspacy.load\<close> has four parameters.\<close>

lemma load_signature_length: "load_signature ps \<Longrightarrow> length ps = 4"
proof -
  assume "load_signature ps"
  then have "distinct ps" "set ps = load_parameters"
    by (simp_all add: load_signature_def)
  then have "length ps = card load_parameters"
    by (simp add: distinct_card [symmetric])
  then show ?thesis by (simp add: load_parameters_def)
qed

lemma load_signature_first: "load_signature ps \<Longrightarrow> zip ps [v] = [(''model'', v)]"
  by (cases ps) (simp_all add: load_signature_def)

lemma bound_names:
  assumes "distinct ps" "length vs \<le> length ps" "set (map fst kws) \<subseteq> set ps"
    "distinct (map fst kws)" "set (map fst kws) \<inter> set (take (length vs) ps) = {}"
  shows "distinct (map fst (zip ps vs @ kws)) \<and> set (map fst (zip ps vs @ kws)) \<subseteq> set ps"
proof -
  have "map fst (zip ps vs) = take (length vs) ps"
    using assms(2) by (simp add: map_fst_zip_take min_def)
  moreover have "distinct (take (length vs) ps)"
    using assms(1) by simp
  moreover have "set (take (length vs) ps) \<subseteq> set ps"
    by (rule set_take_subset)
  ultimately show ?thesis
    using assms(3,4,5) by auto
qed

lemma a_load_signature: "load_signature [''model'', ''enable'', ''disable'', ''load_rules'']"
  by (auto simp add: load_signature_def load_parameters_def)

text \<open>A configuration supplied by keyword is accepted and read back.\<close>

lemma configure_pairs_of: "configure (pairs_of c) no_args = Some c"
  by (cases c) (auto simp add: pairs_of_def no_args_def split: option.splits)

lemma pairs_of_names:
  "set (map fst (pairs_of c)) \<subseteq> load_parameters" "distinct (map fst (pairs_of c))"
  by (auto simp add: pairs_of_def load_parameters_def split: option.splits)

lemma bind_pairs_of:
  assumes "load_signature ps"
  shows "bind ps (keyword_arguments (pairs_of c)) = Inr (pairs_of c)"
  using bind_accepts [of "[]" ps "pairs_of c"] assms pairs_of_names [of c]
  by (simp add: load_signature_def)

text \<open>The calls that the notebook writes.\<close>

lemma calls_written:
  "map (map_option call_arguments) (load_calls notebook) =
     [Some [], Some [], Some [], Some [],
      Some [Pos (PyStr ''de_core_news_sm''), Key ''load_rules'' (PyBool False)],
      Some [Key ''enable'' (PyStrList [''sectionizer''])],
      Some [Key ''disable'' (PyStrList [''tagger'', ''parser''])]]"
  by code_simp

lemma read_call_arguments:
  "read_call ps t =
     (case map_option call_arguments t of
        None \<Rightarrow> None
      | Some as \<Rightarrow> (case bind ps as of Inl e \<Rightarrow> None | Inr b \<Rightarrow> configure b no_args))"
  by (simp add: read_call_def split: option.splits)

lemma bind_calls:
  assumes "load_signature ps"
  shows "bind ps [] = Inr []"
    "bind ps [Pos (PyStr m), Key ''load_rules'' (PyBool x)] =
       Inr [(''model'', PyStr m), (''load_rules'', PyBool x)]"
    "bind ps [Key ''enable'' (PyStrList xs)] = Inr [(''enable'', PyStrList xs)]"
    "bind ps [Key ''disable'' (PyStrList xs)] = Inr [(''disable'', PyStrList xs)]"
proof -
  from assms have ps: "set ps = load_parameters" "take 1 ps = [''model'']" "length ps = 4"
    by (simp_all add: load_signature_def load_signature_length)
  show "bind ps [] = Inr []"
    using bind_accepts [of "[]" ps "[]"] by (simp add: keyword_arguments_def)
  show "bind ps [Pos (PyStr m), Key ''load_rules'' (PyBool x)] =
      Inr [(''model'', PyStr m), (''load_rules'', PyBool x)]"
    using bind_accepts [of "[PyStr m]" ps "[(''load_rules'', PyBool x)]"] ps
    by (simp add: keyword_arguments_def load_parameters_def load_signature_first [OF assms])
  show "bind ps [Key ''enable'' (PyStrList xs)] = Inr [(''enable'', PyStrList xs)]"
    using bind_accepts [of "[]" ps "[(''enable'', PyStrList xs)]"] ps
    by (simp add: keyword_arguments_def load_parameters_def)
  show "bind ps [Key ''disable'' (PyStrList xs)] = Inr [(''disable'', PyStrList xs)]"
    using bind_accepts [of "[]" ps "[(''disable'', PyStrList xs)]"] ps
    by (simp add: keyword_arguments_def load_parameters_def)
qed

lemma calls_read:
  assumes "load_signature ps"
  shows "map (read_call ps) (load_calls notebook) =
     [Some no_args, Some no_args, Some no_args, Some no_args,
      Some (no_args\<lparr>model := Some ''de_core_news_sm'', load_rules := Some False\<rparr>),
      Some (no_args\<lparr>enable := Some [''sectionizer'']\<rparr>),
      Some (no_args\<lparr>disable := Some [''tagger'', ''parser'']\<rparr>)]"
proof -
  have "map (read_call ps) (load_calls notebook) =
      map (\<lambda>t. case t of None \<Rightarrow> None
        | Some as \<Rightarrow> (case bind ps as of Inl e \<Rightarrow> None | Inr b \<Rightarrow> configure b no_args))
       (map (map_option call_arguments) (load_calls notebook))"
    by (simp add: read_call_arguments comp_def)
  then show ?thesis
    by (simp add: calls_written bind_calls [OF assms])
qed

section \<open>Properties of the run on the store\<close>

subsection \<open>The library calls and the code cells\<close>






lemma keeps_mono: "keeps L X h h' \<Longrightarrow> X \<subseteq> Y \<Longrightarrow> keeps L Y h h'"
  by (auto simp add: keeps_def)
























lemma ref_code_8: "ref_code L 8 = ref_code_8 L"
  by (simp add: ref_code_def)

lemma ref_code_9: "ref_code L 9 = ref_code_9 L"
  by (simp add: ref_code_def)







subsection \<open>Lists of cells on the store\<close>















subsection \<open>The run on the store\<close>













subsection \<open>The pipelines are new objects\<close>





subsection \<open>The sample library on a store\<close>










lemma sample_runs_agree:
  "displayed (ref_run sample_ref_library [] sample_files) =
   displayed (run sample_library sample_files)"
  "events (ref_run sample_ref_library [] sample_files) =
   events (run sample_library sample_files)"
  "stdout (ref_run sample_ref_library [] sample_files) =
   stdout (run sample_library sample_files)"
  by code_simp+

section \<open>Claims\<close>

text \<open>
  C1. The pipeline that \<^verbatim>\<open>medspacy.load()\<close> returns when called with no arguments has
  \<^verbatim>\<open>pipe_names\<close> equal to the list \<^verbatim>\<open>tagger\<close>, \<^verbatim>\<open>parser\<close>, \<^verbatim>\<open>target_matcher\<close>,
  \<^verbatim>\<open>sectionizer\<close>, \<^verbatim>\<open>context\<close>, \<^verbatim>\<open>postprocessor\<close>, these six names in this order.
  This holds of the modelled factory, of what the third code cell displays in a run of
  the notebook with the modelled library (whatever its three parameters and the file
  system), and of the result the notebook file records for that cell; the second and
  third code cells are the call and the read of the attribute.
\<close>

theorem C1_default_pipe_names:
  "map_sum id pipe_names (medspacy_load items pats no_args) =
     Inr [''tagger'', ''parser'', ''target_matcher'', ''sectionizer'', ''context'',
          ''postprocessor'']
   \<and> map_of (displayed (run (medspacy_library items pats X) fs)) 3 =
     Some (ShownNames [''tagger'', ''parser'', ''target_matcher'', ''sectionizer'', ''context'',
          ''postprocessor''])
   \<and> recorded_names 3 =
     Some [''tagger'', ''parser'', ''target_matcher'', ''sectionizer'', ''context'',
          ''postprocessor'']
   \<and> source_of 2 notebook = Some [''nlp = medspacy.load()'']
   \<and> source_of 3 notebook = Some [''nlp.pipe_names'']"
proof -
  have "map_sum id pipe_names (medspacy_load items pats no_args) =
     Inr [''tagger'', ''parser'', ''target_matcher'', ''sectionizer'', ''context'',
          ''postprocessor'']"
    by (simp add: lib_defs)
  moreover have "map_of (displayed (run (medspacy_library items pats X) fs)) 3 =
     Some (ShownNames [''tagger'', ''parser'', ''target_matcher'', ''sectionizer'', ''context'',
          ''postprocessor''])"
    by (rule model_displayed)
  moreover have "recorded_names 3 =
     Some [''tagger'', ''parser'', ''target_matcher'', ''sectionizer'', ''context'',
          ''postprocessor'']"
    by (simp add: recorded_names_def notebook_def cell_defs output_05_def read_str_list_def)
  moreover have "source_of 2 notebook = Some [''nlp = medspacy.load()'']"
    by (simp add: notebook_def cell_defs source_04_def)
  moreover have "source_of 3 notebook = Some [''nlp.pipe_names'']"
    by (simp add: notebook_def cell_defs source_05_def)
  ultimately show ?thesis by blast
qed

text \<open>
  C3. The factory function \<^verbatim>\<open>medspacy.load\<close> accepts exactly this configuration: an
  optional base language-model name, a boolean \<^verbatim>\<open>load_rules\<close>, and optional
  allow-list \<^verbatim>\<open>enable\<close> and deny-list \<^verbatim>\<open>disable\<close> of stage names; and every
  argument of every call in the notebook is one of these. For every signature of the
  modelled parameters, bound as Python binds arguments: a call that is accepted has at
  most four positional arguments, followed by keyword arguments, and binds only
  parameters of the four, none twice; conversely such arguments are accepted, the
  positional ones binding the first parameters; every configuration, supplied by
  keyword, is accepted and read back; and each of the seven calls that the notebook
  writes (four in prose, one of them with a model name and \<^verbatim>\<open>load_rules=False\<close>, and
  three in code cells) is accepted and gives the configuration that the call supplies.
\<close>

theorem C3_load_arguments:
  assumes "load_signature ps"
  shows "(bind ps args = Inr b \<longrightarrow>
       (\<exists>vs kws. args = map Pos vs @ keyword_arguments kws \<and> length vs \<le> 4 \<and>
          b = zip ps vs @ kws) \<and>
       distinct (map fst b) \<and> set (map fst b) \<subseteq> load_parameters)
   \<and> (length vs \<le> 4 \<and> set (map fst kws) \<subseteq> load_parameters \<and> distinct (map fst kws) \<and>
       set (map fst kws) \<inter> set (take (length vs) ps) = {} \<longrightarrow>
       bind ps (map Pos vs @ keyword_arguments kws) = Inr (zip ps vs @ kws))
   \<and> bind ps (keyword_arguments (pairs_of c)) = Inr (pairs_of c)
   \<and> configure (pairs_of c) no_args = Some c
   \<and> map (read_call ps) (load_calls notebook) =
       [Some no_args, Some no_args, Some no_args, Some no_args,
        Some (no_args\<lparr>model := Some ''de_core_news_sm'', load_rules := Some False\<rparr>),
        Some (no_args\<lparr>enable := Some [''sectionizer'']\<rparr>),
        Some (no_args\<lparr>disable := Some [''tagger'', ''parser'']\<rparr>)]"
proof -
  from assms have ps: "distinct ps" "set ps = load_parameters" "length ps = 4"
    by (simp_all add: load_signature_def load_signature_length)
  have accepted: "bind ps args = Inr b \<longrightarrow>
      (\<exists>vs kws. args = map Pos vs @ keyword_arguments kws \<and> length vs \<le> 4 \<and>
         b = zip ps vs @ kws) \<and>
      distinct (map fst b) \<and> set (map fst b) \<subseteq> load_parameters"
  proof
    assume "bind ps args = Inr b"
    from bind_accepted [OF this] obtain vs kws where
      a: "args = map Pos vs @ keyword_arguments kws" "length vs \<le> length ps"
        "set (map fst kws) \<subseteq> set ps" "distinct (map fst kws)"
        "set (map fst kws) \<inter> set (take (length vs) ps) = {}" "b = zip ps vs @ kws"
      by blast
    from bound_names [OF ps(1) a(2,3,4,5)] a(6) ps(2)
    have "distinct (map fst b) \<and> set (map fst b) \<subseteq> load_parameters"
      by simp
    moreover from a(1,2,6) ps(3)
    have "\<exists>vs kws. args = map Pos vs @ keyword_arguments kws \<and> length vs \<le> 4 \<and>
        b = zip ps vs @ kws"
      by auto
    ultimately show "(\<exists>vs kws. args = map Pos vs @ keyword_arguments kws \<and> length vs \<le> 4 \<and>
         b = zip ps vs @ kws) \<and>
      distinct (map fst b) \<and> set (map fst b) \<subseteq> load_parameters"
      by blast
  qed
  have accepts: "length vs \<le> 4 \<and> set (map fst kws) \<subseteq> load_parameters \<and>
      distinct (map fst kws) \<and> set (map fst kws) \<inter> set (take (length vs) ps) = {} \<longrightarrow>
      bind ps (map Pos vs @ keyword_arguments kws) = Inr (zip ps vs @ kws)"
    using bind_accepts [of vs ps kws] ps by simp
  show ?thesis
    by (rule conjI [OF accepted conjI [OF accepts conjI [OF bind_pairs_of [OF assms]
      conjI [OF configure_pairs_of calls_read [OF assms]]]]])
qed

text \<open>
  C3 at a signature, at the arguments of the call
  \<^verbatim>\<open>medspacy.load("de_core_news_sm", load_rules=False)\<close>, and at the configuration that
  its keyword argument supplies.
\<close>

theorem C3_load_arguments_witness:
  "load_signature [''model'', ''enable'', ''disable'', ''load_rules'']
   \<and> bind [''model'', ''enable'', ''disable'', ''load_rules'']
        [Pos (PyStr ''de_core_news_sm''), Key ''load_rules'' (PyBool False)] =
      Inr [(''model'', PyStr ''de_core_news_sm''), (''load_rules'', PyBool False)]
   \<and> distinct (map fst [(''model'', PyStr ''de_core_news_sm''), (''load_rules'', PyBool False)])
   \<and> set (map fst [(''model'', PyStr ''de_core_news_sm''), (''load_rules'', PyBool False)])
        \<subseteq> load_parameters
   \<and> bind [''model'', ''enable'', ''disable'', ''load_rules'']
        (keyword_arguments (pairs_of (no_args\<lparr>load_rules := Some False\<rparr>))) =
      Inr (pairs_of (no_args\<lparr>load_rules := Some False\<rparr>))
   \<and> configure (pairs_of (no_args\<lparr>load_rules := Some False\<rparr>)) no_args =
      Some (no_args\<lparr>load_rules := Some False\<rparr>)
   \<and> map (read_call [''model'', ''enable'', ''disable'', ''load_rules'']) (load_calls notebook) =
       [Some no_args, Some no_args, Some no_args, Some no_args,
        Some (no_args\<lparr>model := Some ''de_core_news_sm'', load_rules := Some False\<rparr>),
        Some (no_args\<lparr>enable := Some [''sectionizer'']\<rparr>),
        Some (no_args\<lparr>disable := Some [''tagger'', ''parser'']\<rparr>)]"
  using C3_load_arguments [OF a_load_signature,
      where args = "[Pos (PyStr ''de_core_news_sm''), Key ''load_rules'' (PyBool False)]"
      and b = "[(''model'', PyStr ''de_core_news_sm''), (''load_rules'', PyBool False)]"
      and vs = "[PyStr ''de_core_news_sm'']" and kws = "[(''load_rules'', PyBool False)]"
      and c = "no_args\<lparr>load_rules := Some False\<rparr>"]
    a_load_signature
  by (simp add: load_parameters_def bind_def)

text \<open>
  C9. For the call \<^verbatim>\<open>medspacy.load(disable=["tagger", "parser"])\<close> the resulting
  \<^verbatim>\<open>pipe_names\<close> is the default \<^verbatim>\<open>pipe_names\<close> with exactly the two named stages
  removed and the order of the others kept, namely \<^verbatim>\<open>target_matcher\<close>,
  \<^verbatim>\<open>sectionizer\<close>, \<^verbatim>\<open>context\<close>, \<^verbatim>\<open>postprocessor\<close>. This holds of the modelled
  factory, of what the ninth code cell displays in a run with the modelled library, and
  of the results the notebook file records for the ninth and the third code cell.
\<close>

theorem C9_disable_tagger_parser:
  \<open>map_sum id pipe_names
     (medspacy_load items pats (no_args\<lparr>disable := Some [''tagger'', ''parser'']\<rparr>)) =
     map_sum id (\<lambda>p. filter (\<lambda>n. n \<notin> set [''tagger'', ''parser'']) (pipe_names p))
       (medspacy_load items pats no_args)
   \<and> map_sum id pipe_names
     (medspacy_load items pats (no_args\<lparr>disable := Some [''tagger'', ''parser'']\<rparr>)) =
     Inr [''target_matcher'', ''sectionizer'', ''context'', ''postprocessor'']
   \<and> map_of (displayed (run (medspacy_library items pats X) fs)) 9 =
     Some (ShownNames [''target_matcher'', ''sectionizer'', ''context'', ''postprocessor''])
   \<and> recorded_names 9 =
     Some [''target_matcher'', ''sectionizer'', ''context'', ''postprocessor'']
   \<and> recorded_names 9 =
     map_option (filter (\<lambda>n. n \<notin> set [''tagger'', ''parser''])) (recorded_names 3)
   \<and> source_of 9 notebook =
     Some [''nlp_no_pos_dep = medspacy.load(disable=["tagger", "parser"])\<newline>'',
           ''nlp_no_pos_dep.pipe_names'']\<close>
proof -
  have a: "map_sum id pipe_names
     (medspacy_load items pats (no_args\<lparr>disable := Some [''tagger'', ''parser'']\<rparr>)) =
     Inr [''target_matcher'', ''sectionizer'', ''context'', ''postprocessor'']"
    by (simp add: medspacy_load_disable default_stage_names_def)
  have b: "map_sum id (\<lambda>p. filter (\<lambda>n. n \<notin> set [''tagger'', ''parser'']) (pipe_names p))
       (medspacy_load items pats no_args) =
     Inr [''target_matcher'', ''sectionizer'', ''context'', ''postprocessor'']"
    by (simp add: lib_defs)
  have c: "map_of (displayed (run (medspacy_library items pats X) fs)) 9 =
     Some (ShownNames [''target_matcher'', ''sectionizer'', ''context'', ''postprocessor''])"
    by (rule model_displayed)
  have d: "recorded_names 9 =
     Some [''target_matcher'', ''sectionizer'', ''context'', ''postprocessor'']"
    by (simp add: recorded_names_def notebook_def cell_defs output_15_def read_str_list_def)
  have e: "recorded_names 3 =
     Some [''tagger'', ''parser'', ''target_matcher'', ''sectionizer'', ''context'',
          ''postprocessor'']"
    by (simp add: recorded_names_def notebook_def cell_defs output_05_def read_str_list_def)
  have f: \<open>source_of 9 notebook =
     Some [''nlp_no_pos_dep = medspacy.load(disable=["tagger", "parser"])\<newline>'',
           ''nlp_no_pos_dep.pipe_names'']\<close>
    by (simp add: notebook_def cell_defs source_15_def)
  show ?thesis
    unfolding a b c d e f by simp
qed




text \<open>
  C4, as stated. The operations of a run happen in the order library import, pipeline
  construction, metadata introspection, file read, slice print, and none happens before
  one of a kind listed earlier. This fails in the sample run, which completes: pipelines
  are constructed and modules imported after attributes have been read.
\<close>

theorem C4_listed_order_counterexample:
  "raised (run sample_library sample_files) = None
   \<and> \<not> in_listed_order (events (run sample_library sample_files))"
  by (simp add: sample_run(1) sample_events in_listed_order_def)

text \<open>
  C4, amended. A run from the top that raises nothing performs exactly this sequence of
  operations: an import, a pipeline construction and five introspections (up to here in
  the listed order); then a construction and an introspection, twice; an import and a
  construction; an import and two constructions (the component and its addition to the
  pipeline); an introspection; and last the file read (open, read, close) and the slice
  print, in the listed order.
\<close>

theorem C4_operations_in_order:
  assumes "raised (run L fs) = None"
  shows "map phase_of (events (run L fs)) =
     [LibraryImport, PipelineConstruction,
      MetadataIntrospection, MetadataIntrospection, MetadataIntrospection,
      MetadataIntrospection, MetadataIntrospection,
      PipelineConstruction, MetadataIntrospection,
      PipelineConstruction, MetadataIntrospection,
      LibraryImport, PipelineConstruction,
      LibraryImport, PipelineConstruction, PipelineConstruction,
      MetadataIntrospection,
      FileRead, FileRead, FileRead, SlicePrint]
   \<and> in_listed_order (take 7 (events (run L fs)))
   \<and> in_listed_order (drop 17 (events (run L fs)))"
  by (simp add: run_events [OF assms] in_listed_order_def)

text \<open>The amended C4 at the sample run.\<close>

theorem C4_operations_in_order_witness:
  "raised (run sample_library sample_files) = None
   \<and> map phase_of (events (run sample_library sample_files)) =
     [LibraryImport, PipelineConstruction,
      MetadataIntrospection, MetadataIntrospection, MetadataIntrospection,
      MetadataIntrospection, MetadataIntrospection,
      PipelineConstruction, MetadataIntrospection,
      PipelineConstruction, MetadataIntrospection,
      LibraryImport, PipelineConstruction,
      LibraryImport, PipelineConstruction, PipelineConstruction,
      MetadataIntrospection,
      FileRead, FileRead, FileRead, SlicePrint]"
  using C4_operations_in_order [of sample_library sample_files] sample_run(1) by simp

text \<open>
  C5. The notebook reads exactly one file, \<^verbatim>\<open>./discharge_summary.txt\<close>, binds its whole
  contents to \<^verbatim>\<open>text\<close>, and prints \<^verbatim>\<open>text[:500]\<close>: the first 500 characters, or all of
  them if there are fewer, followed by the line feed of \<^verbatim>\<open>print\<close>; \<^verbatim>\<open>text\<close> itself is
  unchanged. For every library and file system: if the run raises nothing, the file
  exists with some contents \<open>c\<close>; \<^verbatim>\<open>text\<close> is unbound before the read cell and holds
  \<open>c\<close> after it and after the print; nothing is printed before the last cell, which
  prints the slice; the only file operations are the opening, reading and closing of that
  file; and the file system is as it was.
\<close>

theorem C5_file_read_and_print:
  assumes "raised (run L fs) = None"
  shows "\<exists>c. fs ''./discharge_summary.txt'' = Some (Inr c)
    \<and> v_text (run_to 25 L fs) = None
    \<and> v_text (run_to 26 L fs) = Some c
    \<and> v_text (run L fs) = Some c
    \<and> stdout (run_to 26 L fs) = []
    \<and> stdout (run L fs) = take 500 c @ [CHR 0x0A]
    \<and> (length c \<le> 500 \<longrightarrow> stdout (run L fs) = c @ [CHR 0x0A])
    \<and> (500 \<le> length c \<longrightarrow> length (stdout (run L fs)) = 501)
    \<and> file_ops (events (run L fs)) =
        [Open ''./discharge_summary.txt'', Read ''./discharge_summary.txt'',
         Close ''./discharge_summary.txt'']
    \<and> files (run L fs) = fs"
proof -
  from assms have r: "raised (run_to 25 L fs) = None"
    by (rule run_completed)
  from assms obtain c where c: "fs ''./discharge_summary.txt'' = Some (Inr c)"
    using run_completed(2) by blast
  have "v_text (run_to 26 L fs) = Some c" "stdout (run_to 26 L fs) = []"
    using r c run_to_25_files [of L fs] by (simp_all add: run_to_26_cases)
  moreover have "v_text (run L fs) = Some c" "stdout (run L fs) = take 500 c @ [CHR 0x0A]"
    "files (run L fs) = fs"
    using r c run_to_25_files [of L fs] by (simp_all add: run_cases)
  moreover have "file_ops (events (run L fs)) =
        [Open ''./discharge_summary.txt'', Read ''./discharge_summary.txt'',
         Close ''./discharge_summary.txt'']"
    using r c by (simp add: run_file_ops)
  ultimately show ?thesis
    using c run_to_25_files(3) [of L fs] by auto
qed

text \<open>
  C5 at the sample run: it completes, \<^verbatim>\<open>text\<close> holds the 500 characters of the file, and
  what is printed is the stream that the notebook file records for the last cell.
\<close>

theorem C5_file_read_and_print_witness:
  "raised (run sample_library sample_files) = None
   \<and> sample_files ''./discharge_summary.txt'' = Some (Inr sample_text)
   \<and> v_text (run sample_library sample_files) = Some sample_text
   \<and> stdout (run sample_library sample_files) = sample_text @ [CHR 0x0A]
   \<and> stream_text (outputs_of 17 notebook) = Some (sample_text @ [CHR 0x0A])"
proof -
  have r: "raised (run sample_library sample_files) = None"
    by (rule sample_run)
  have f: "sample_files ''./discharge_summary.txt'' = Some (Inr sample_text)"
    by (simp add: sample_files_def)
  have o: "stream_text (outputs_of 17 notebook) = Some (sample_text @ [CHR 0x0A])"
    by (simp add: notebook_def cell_defs recorded_stream)
  from C5_file_read_and_print [OF r] f recorded_stream(2) r o show ?thesis
    by auto
qed

text \<open>
  C8. The notebook acquires one resource: it opens \<^verbatim>\<open>./discharge_summary.txt\<close> for
  reading in a \<^verbatim>\<open>with\<close> block, so the handle is open only while the file is read and is
  closed on every exit from the block; no other file is opened. For every library and
  file system: no handle is open after any number of cells, nor at the end of the run,
  however it ends; the file operations of the run are none, or the opening, the read and
  the closing of that file, in this order; and they are the latter if the run raises
  nothing.
\<close>

theorem C8_scoped_file_handle:
  "open_files (run_to n L fs) = []
   \<and> open_files (run L fs) = []
   \<and> file_ops (events (run L fs)) \<in>
       {[], [Open ''./discharge_summary.txt'', Read ''./discharge_summary.txt'',
             Close ''./discharge_summary.txt'']}
   \<and> (raised (run L fs) = None \<longrightarrow>
        file_ops (events (run L fs)) =
          [Open ''./discharge_summary.txt'', Read ''./discharge_summary.txt'',
           Close ''./discharge_summary.txt''])"
proof -
  have "open_files (run L fs) = []"
    using run_to_open_files [of 27 L fs] by (simp add: run_to_def run_def length_notebook)
  moreover have "raised (run L fs) = None \<longrightarrow>
        file_ops (events (run L fs)) =
          [Open ''./discharge_summary.txt'', Read ''./discharge_summary.txt'',
           Close ''./discharge_summary.txt'']"
  proof
    assume a: "raised (run L fs) = None"
    then obtain c where "fs ''./discharge_summary.txt'' = Some (Inr c)"
      using run_completed(2) by blast
    with run_completed(1) [OF a] show "file_ops (events (run L fs)) =
          [Open ''./discharge_summary.txt'', Read ''./discharge_summary.txt'',
           Close ''./discharge_summary.txt'']"
      by (simp add: run_file_ops)
  qed
  ultimately show ?thesis
    by (simp add: run_to_open_files run_file_ops)
qed

text \<open>C8 at the sample run.\<close>

theorem C8_scoped_file_handle_witness:
  "raised (run sample_library sample_files) = None
   \<and> file_ops (events (run sample_library sample_files)) =
       [Open ''./discharge_summary.txt'', Read ''./discharge_summary.txt'',
        Close ''./discharge_summary.txt'']
   \<and> open_files (run sample_library sample_files) = []"
  using C8_scoped_file_handle [of 0 sample_library sample_files] sample_run(1) by simp

end
